theory Spec2Isabelle
  imports Main "HOL-Library.Word"
begin

unbundle bit_operations_syntax

section \<open>JavaScript numbers and typed views\<close>

text \<open>
  The emulator is written in JavaScript.  An integral JS number is an \<open>int\<close>; the
  bitwise operators first convert their operands with ToInt32 (reduction modulo
  \<open>2 ^ 32\<close>) and return a signed 32-bit result, except \<open>>>>\<close>, which returns an
  unsigned one.  Shift counts are taken modulo 32.  Exceptions are values of the type
  \<open>error\<close>; a function that can throw returns \<open>error + 'a\<close>.
\<close>

type_synonym byte = "8 word"

datatype error = RangeError | TypeError | ReferenceError | InvalidCharacterError | Error

definition ToInt32 :: "int \<Rightarrow> 32 word" where
  "ToInt32 x = word_of_int x"

definition js_and :: "int \<Rightarrow> int \<Rightarrow> int" where
  "js_and a b = sint (ToInt32 a AND ToInt32 b)"

definition js_or :: "int \<Rightarrow> int \<Rightarrow> int" where
  "js_or a b = sint (ToInt32 a OR ToInt32 b)"

definition js_not :: "int \<Rightarrow> int" where
  "js_not a = sint (NOT (ToInt32 a))"

definition js_shl :: "int \<Rightarrow> int \<Rightarrow> int" where
  "js_shl a n = sint (push_bit (nat (n mod 32)) (ToInt32 a))"

definition js_sar :: "int \<Rightarrow> int \<Rightarrow> int" where
  "js_sar a n = sint (signed_drop_bit (nat (n mod 32)) (ToInt32 a))"

definition js_shr :: "int \<Rightarrow> int \<Rightarrow> int" where
  "js_shr a n = uint (drop_bit (nat (n mod 32)) (ToInt32 a))"

text \<open>
  A \<open>DataView\<close> is the list of the bytes it exposes.  Every accessor throws a
  RangeError when the index is negative or the element does not fit.
\<close>

definition in_view :: "byte list \<Rightarrow> int \<Rightarrow> nat \<Rightarrow> bool" where
  "in_view v i n \<longleftrightarrow> 0 \<le> i \<and> nat i + n \<le> length v"

definition half_of :: "byte \<Rightarrow> byte \<Rightarrow> 16 word" where
  "half_of lo hi = ucast lo OR push_bit 8 (ucast hi)"

definition word_of :: "byte \<Rightarrow> byte \<Rightarrow> byte \<Rightarrow> byte \<Rightarrow> 32 word" where
  "word_of b0 b1 b2 b3 =
     ucast b0 OR push_bit 8 (ucast b1) OR push_bit 16 (ucast b2) OR push_bit 24 (ucast b3)"

definition getInt8 :: "byte list \<Rightarrow> int \<Rightarrow> error + int" where
  "getInt8 v i = (if in_view v i 1 then Inr (sint (v ! nat i)) else Inl RangeError)"

definition getUint8 :: "byte list \<Rightarrow> int \<Rightarrow> error + int" where
  "getUint8 v i = (if in_view v i 1 then Inr (uint (v ! nat i)) else Inl RangeError)"

definition get16 :: "byte list \<Rightarrow> int \<Rightarrow> bool \<Rightarrow> 16 word" where
  "get16 v i littleEndian =
     (if littleEndian then half_of (v ! nat i) (v ! (nat i + 1))
      else half_of (v ! (nat i + 1)) (v ! nat i))"

definition getInt16 :: "byte list \<Rightarrow> int \<Rightarrow> bool \<Rightarrow> error + int" where
  "getInt16 v i littleEndian =
     (if in_view v i 2 then Inr (sint (get16 v i littleEndian)) else Inl RangeError)"

definition getUint16 :: "byte list \<Rightarrow> int \<Rightarrow> bool \<Rightarrow> error + int" where
  "getUint16 v i littleEndian =
     (if in_view v i 2 then Inr (uint (get16 v i littleEndian)) else Inl RangeError)"

definition get32 :: "byte list \<Rightarrow> int \<Rightarrow> bool \<Rightarrow> 32 word" where
  "get32 v i littleEndian =
     (if littleEndian
      then word_of (v ! nat i) (v ! (nat i + 1)) (v ! (nat i + 2)) (v ! (nat i + 3))
      else word_of (v ! (nat i + 3)) (v ! (nat i + 2)) (v ! (nat i + 1)) (v ! nat i))"

definition getInt32 :: "byte list \<Rightarrow> int \<Rightarrow> bool \<Rightarrow> error + int" where
  "getInt32 v i littleEndian =
     (if in_view v i 4 then Inr (sint (get32 v i littleEndian)) else Inl RangeError)"

definition byte_of :: "int \<Rightarrow> nat \<Rightarrow> byte" where
  "byte_of x k = ucast (drop_bit (8 * k) (ToInt32 x))"

definition setInt8 :: "byte list \<Rightarrow> int \<Rightarrow> int \<Rightarrow> error + byte list" where
  "setInt8 v i x = (if in_view v i 1 then Inr (v[nat i := byte_of x 0]) else Inl RangeError)"

definition setInt16 :: "byte list \<Rightarrow> int \<Rightarrow> int \<Rightarrow> bool \<Rightarrow> error + byte list" where
  "setInt16 v i x littleEndian =
     (if in_view v i 2
      then Inr (if littleEndian
                then v[nat i := byte_of x 0, nat i + 1 := byte_of x 1]
                else v[nat i := byte_of x 1, nat i + 1 := byte_of x 0])
      else Inl RangeError)"

definition setInt32 :: "byte list \<Rightarrow> int \<Rightarrow> int \<Rightarrow> bool \<Rightarrow> error + byte list" where
  "setInt32 v i x littleEndian =
     (if in_view v i 4
      then Inr (if littleEndian
                then v[nat i := byte_of x 0, nat i + 1 := byte_of x 1,
                       nat i + 2 := byte_of x 2, nat i + 3 := byte_of x 3]
                else v[nat i := byte_of x 3, nat i + 1 := byte_of x 2,
                       nat i + 2 := byte_of x 1, nat i + 3 := byte_of x 0])
      else Inl RangeError)"

section \<open>Memory regions (util.js: MemoryView, MemoryBlock, ROMView, BIOSView)\<close>

text \<open>
  A page of the instruction cache: the two arrays of decoded instructions are kept by
  their lengths, which is all the memory subsystem itself ever looks at.
\<close>

record page =
  thumb :: nat
  arm :: nat
  invalid :: bool

datatype region_kind = MemoryBlock | ROMView | BIOSView

text \<open>
  \<open>byteLength\<close> is \<open>buffer.byteLength\<close>; \<open>view\<close> holds the bytes of the buffer from
  the view's offset on.  \<open>icache\<close> is the sparse JS array of pages; \<open>gpio\<close> is the
  GPIO back-channel of a ROM view, kept as the list of stores forwarded to it
  (\<open>None\<close> while it is not allocated).
\<close>

record region =
  kind :: region_kind
  byteLength :: nat
  view :: "byte list"
  maskR :: int
  mask8 :: int
  mask16 :: int
  mask32 :: int
  ICACHE_PAGE_BITS :: int
  PAGE_MASK :: int
  icache :: "int \<Rightarrow> page option"
  gpio :: "(nat \<times> int \<times> int) list option"

definition resetMask :: "region \<Rightarrow> region" where
  "resetMask r = r\<lparr>mask8 := js_and (maskR r) 0xffffffff,
                   mask16 := js_and (maskR r) 0xfffffffe,
                   mask32 := js_and (maskR r) 0xfffffffc\<rparr>"

text \<open>The constructor of \<open>MemoryView\<close>, for a buffer \<open>memory\<close> and a view offset.\<close>

definition MemoryView_new :: "region_kind \<Rightarrow> byte list \<Rightarrow> nat \<Rightarrow> error + region" where
  "MemoryView_new k memory offset =
     (if offset \<le> length memory
      then Inr (resetMask \<lparr>kind = k, byteLength = length memory, view = drop offset memory,
                  maskR = int (length memory) - 1, mask8 = 0, mask16 = 0, mask32 = 0,
                  ICACHE_PAGE_BITS = 0, PAGE_MASK = 0, icache = Map.empty, gpio = None\<rparr>)
      else Inl RangeError)"

definition MemoryBlock_new :: "nat \<Rightarrow> int \<Rightarrow> region" where
  "MemoryBlock_new sz cacheBits =
     resetMask \<lparr>kind = MemoryBlock, byteLength = sz, view = replicate sz 0,
        maskR = int sz - 1, mask8 = 0, mask16 = 0, mask32 = 0,
        ICACHE_PAGE_BITS = cacheBits, PAGE_MASK = js_shl 2 cacheBits - 1,
        icache = Map.empty, gpio = None\<rparr>"

definition ROMView_new :: "byte list \<Rightarrow> nat \<Rightarrow> error + region" where
  "ROMView_new rom offset =
     (case MemoryView_new ROMView rom offset of
        Inl e \<Rightarrow> Inl e
      | Inr r \<Rightarrow> Inr (resetMask (r\<lparr>ICACHE_PAGE_BITS := 10, PAGE_MASK := js_shl 2 10 - 1,
                                    maskR := 0x01ffffff\<rparr>)))"

definition BIOSView_new :: "byte list \<Rightarrow> nat \<Rightarrow> error + region" where
  "BIOSView_new rom offset =
     (case MemoryView_new BIOSView rom offset of
        Inl e \<Rightarrow> Inl e
      | Inr r \<Rightarrow> Inr (r\<lparr>ICACHE_PAGE_BITS := 16, PAGE_MASK := js_shl 2 16 - 1\<rparr>))"

subsection \<open>Loads\<close>

text \<open>The methods of \<open>MemoryView\<close>, inherited by \<open>MemoryBlock\<close> and \<open>ROMView\<close>.\<close>

definition MemoryView_load8 :: "region \<Rightarrow> int \<Rightarrow> error + int" where
  "MemoryView_load8 r offset = getInt8 (view r) (js_and offset (mask8 r))"

definition MemoryView_load16 :: "region \<Rightarrow> int \<Rightarrow> error + int" where
  "MemoryView_load16 r offset = getInt16 (view r) (js_and offset (maskR r)) True"

definition MemoryView_loadU8 :: "region \<Rightarrow> int \<Rightarrow> error + int" where
  "MemoryView_loadU8 r offset = getUint8 (view r) (js_and offset (mask8 r))"

definition MemoryView_loadU16 :: "region \<Rightarrow> int \<Rightarrow> error + int" where
  "MemoryView_loadU16 r offset = getUint16 (view r) (js_and offset (maskR r)) True"

definition MemoryView_load32 :: "region \<Rightarrow> int \<Rightarrow> error + int" where
  "MemoryView_load32 r offset =
     (let rotate = js_shl (js_and offset 3) 3 in
      case getInt32 (view r) (js_and offset (mask32 r)) True of
        Inl e \<Rightarrow> Inl e
      | Inr mem \<Rightarrow> Inr (js_or (js_shr mem rotate) (js_shl mem (32 - rotate))))"

text \<open>The overriding loads of \<open>BIOSView\<close>: a bounds check against the buffer, no mask.\<close>

definition BIOSView_load8 :: "region \<Rightarrow> int \<Rightarrow> error + int" where
  "BIOSView_load8 r offset =
     (if offset \<ge> int (byteLength r) then Inr (- 1) else getInt8 (view r) offset)"

definition BIOSView_load16 :: "region \<Rightarrow> int \<Rightarrow> error + int" where
  "BIOSView_load16 r offset =
     (if offset \<ge> int (byteLength r) then Inr (- 1) else getInt16 (view r) offset True)"

definition BIOSView_loadU8 :: "region \<Rightarrow> int \<Rightarrow> error + int" where
  "BIOSView_loadU8 r offset =
     (if offset \<ge> int (byteLength r) then Inr (- 1) else getUint8 (view r) offset)"

definition BIOSView_loadU16 :: "region \<Rightarrow> int \<Rightarrow> error + int" where
  "BIOSView_loadU16 r offset =
     (if offset \<ge> int (byteLength r) then Inr (- 1) else getUint16 (view r) offset True)"

definition BIOSView_load32 :: "region \<Rightarrow> int \<Rightarrow> error + int" where
  "BIOSView_load32 r offset =
     (if offset \<ge> int (byteLength r) then Inr (- 1) else getInt32 (view r) offset True)"

text \<open>Method dispatch on the class of the region.\<close>

definition load8 :: "region \<Rightarrow> int \<Rightarrow> error + int" where
  "load8 r offset =
     (case kind r of BIOSView \<Rightarrow> BIOSView_load8 r offset | _ \<Rightarrow> MemoryView_load8 r offset)"

definition load16 :: "region \<Rightarrow> int \<Rightarrow> error + int" where
  "load16 r offset =
     (case kind r of BIOSView \<Rightarrow> BIOSView_load16 r offset | _ \<Rightarrow> MemoryView_load16 r offset)"

definition loadU8 :: "region \<Rightarrow> int \<Rightarrow> error + int" where
  "loadU8 r offset =
     (case kind r of BIOSView \<Rightarrow> BIOSView_loadU8 r offset | _ \<Rightarrow> MemoryView_loadU8 r offset)"

definition loadU16 :: "region \<Rightarrow> int \<Rightarrow> error + int" where
  "loadU16 r offset =
     (case kind r of BIOSView \<Rightarrow> BIOSView_loadU16 r offset | _ \<Rightarrow> MemoryView_loadU16 r offset)"

definition load32 :: "region \<Rightarrow> int \<Rightarrow> error + int" where
  "load32 r offset =
     (case kind r of BIOSView \<Rightarrow> BIOSView_load32 r offset | _ \<Rightarrow> MemoryView_load32 r offset)"

text \<open>Rotation of a signed 32-bit number to the right by a number of bits.\<close>

definition rotate_right :: "int \<Rightarrow> nat \<Rightarrow> int" where
  "rotate_right x n = sint (word_rotr n (ToInt32 x))"

text \<open>What \<open>resetMask\<close> establishes; no other code writes the three derived masks.\<close>

definition masks_reset :: "region \<Rightarrow> bool" where
  "masks_reset r \<longleftrightarrow> mask8 r = js_and (maskR r) 0xffffffff \<and>
     mask16 r = js_and (maskR r) 0xfffffffe \<and> mask32 r = js_and (maskR r) 0xfffffffc"

text \<open>A load whose result, when there is one, is rotated to the right.\<close>

definition rotated_result :: "error + int \<Rightarrow> nat \<Rightarrow> error + int" where
  "rotated_result res n = (case res of Inl e \<Rightarrow> Inl e | Inr w \<Rightarrow> Inr (rotate_right w n))"

text \<open>A small RAM block with recognisable contents, for concrete evaluations.\<close>

definition ram_example :: region where
  "ram_example = (MemoryBlock_new 8 9)\<lparr>view := [0x11, 0x22, 0x33, 0x44, 0x55, 0x66, 0x77, 0x08]\<rparr>"

section \<open>The memory management unit (util.js: GameBoyAdvanceMMU)\<close>

text \<open>
  What a slot of \<open>mmu.memory\<close> can hold.  \<open>Null\<close> is \<open>null\<close> or \<open>undefined\<close>;
  \<open>Mem\<close> is a region of the classes above; \<open>BadMemory\<close> is the open-bus object;
  \<open>IO\<close> is the I/O block with its \<open>registers\<close> array (a \<open>Uint16Array\<close>) and
  the rest of its state; \<open>Savedata\<close> is a freshly constructed cartridge backup of the
  given class and size; \<open>Foreign\<close> is an object owned by another component (palette,
  VRAM, OAM).  The classes behind the last three are not part of the memory subsystem:
  their state is a value of the type parameter and their methods are parameters.

  Modelled from the spec: the objects of the other components carry no instruction
  cache (only RAM blocks, ROM views and the BIOS view expose \<open>ICACHE_PAGE_BITS\<close> and
  \<open>icache\<close>).  They are also taken to have no raw \<open>view\<close>; \<open>clear\<close>, \<open>loadRom\<close> and
  the reset of the machine put none of them in the slots 2, 3, 8 and 10, the only ones
  whose \<open>view\<close> is consulted.
\<close>

datatype save_kind = FlashSavedata | SRAMSavedata | EEPROMSavedata

datatype 'x slot =
    Null
  | Mem region
  | BadMemory
  | IO "16 word list" 'x
  | Savedata save_kind nat
  | Foreign 'x

record cart =
  title :: "string option"
  code :: "string option"
  maker :: "string option"
  cart_memory :: "byte list"
  saveType :: "string option"

text \<open>
  The state of the MMU.  \<open>memory\<close> is \<open>None\<close> until \<open>clear\<close> has run.  \<open>save\<close> refers
  to the backup object by the slot it was installed in.  The waitstate arrays are read
  and written at region numbers only; \<open>cycles\<close> is \<open>cpu.cycles\<close>.
\<close>

record 'x mmu =
  bios :: "region option"
  cart :: "cart option"
  memory :: "'x slot list option"
  save :: "nat option"
  waitstates :: "nat \<Rightarrow> int"
  waitstates32 :: "nat \<Rightarrow> int"
  waitstatesSeq :: "nat \<Rightarrow> int"
  waitstatesSeq32 :: "nat \<Rightarrow> int"
  waitstatesPrefetch :: "nat \<Rightarrow> int"
  waitstatesPrefetch32 :: "nat \<Rightarrow> int"
  cycles :: int

abbreviation (input) REGION_WORKING_RAM :: nat where "REGION_WORKING_RAM \<equiv> 2"
abbreviation (input) REGION_WORKING_IRAM :: nat where "REGION_WORKING_IRAM \<equiv> 3"
abbreviation (input) REGION_IO :: nat where "REGION_IO \<equiv> 4"
abbreviation (input) REGION_CART0 :: nat where "REGION_CART0 \<equiv> 8"
abbreviation (input) REGION_CART1 :: nat where "REGION_CART1 \<equiv> 10"
abbreviation (input) REGION_CART2 :: nat where "REGION_CART2 \<equiv> 12"
abbreviation (input) REGION_CART_SRAM :: nat where "REGION_CART_SRAM \<equiv> 14"

abbreviation (input) BASE_OFFSET :: int where "BASE_OFFSET \<equiv> 24"
abbreviation (input) OFFSET_MASK :: int where "OFFSET_MASK \<equiv> 0x00ffffff"

abbreviation (input) SIZE_WORKING_RAM :: nat where "SIZE_WORKING_RAM \<equiv> 0x00040000"
abbreviation (input) SIZE_WORKING_IRAM :: nat where "SIZE_WORKING_IRAM \<equiv> 0x00008000"
abbreviation (input) SIZE_CART_SRAM :: nat where "SIZE_CART_SRAM \<equiv> 0x00008000"
abbreviation (input) SIZE_CART_FLASH512 :: nat where "SIZE_CART_FLASH512 \<equiv> 0x00010000"
abbreviation (input) SIZE_CART_FLASH1M :: nat where "SIZE_CART_FLASH1M \<equiv> 0x00020000"
abbreviation (input) SIZE_CART_EEPROM :: nat where "SIZE_CART_EEPROM \<equiv> 0x00002000"

definition ROM_WS :: "int list" where
  "ROM_WS = [4, 3, 2, 8]"

definition ROM_WS_SEQ :: "int list list" where
  "ROM_WS_SEQ = [[2, 1], [4, 1], [8, 1]]"

text \<open>An array literal followed by zeros, read at an index.\<close>

definition array_of :: "int list \<Rightarrow> nat \<Rightarrow> int" where
  "array_of xs i = (if i < length xs then xs ! i else 0)"

definition setWaitStates :: "'x mmu \<Rightarrow> 'x mmu" where
  "setWaitStates s =
     (let s = s\<lparr>waitstates := array_of [0, 0, 2, 0, 0, 0, 0, 0, 4, 4, 4, 4, 4, 4, 4]\<rparr>;
          s = s\<lparr>waitstates32 := array_of [0, 0, 5, 0, 0, 1, 0, 1, 7, 7, 9, 9, 13, 13, 8]\<rparr>;
          s = s\<lparr>waitstatesSeq := array_of [0, 0, 2, 0, 0, 0, 0, 0, 2, 2, 4, 4, 8, 8, 4]\<rparr>;
          s = s\<lparr>waitstatesSeq32 := array_of [0, 0, 5, 0, 0, 1, 0, 1, 5, 5, 9, 9, 17, 17, 8]\<rparr>;
          s = s\<lparr>waitstatesPrefetch := waitstatesSeq s\<rparr>;
          s = s\<lparr>waitstatesPrefetch32 := waitstatesSeq32 s\<rparr>
      in s)"

text \<open>The state after the constructor has run, for a CPU whose cycle counter is 0.\<close>

definition GameBoyAdvanceMMU_new :: "'x mmu" where
  "GameBoyAdvanceMMU_new =
     setWaitStates \<lparr>bios = None, cart = None, memory = None, save = None,
       waitstates = (\<lambda>_. 0), waitstates32 = (\<lambda>_. 0), waitstatesSeq = (\<lambda>_. 0),
       waitstatesSeq32 = (\<lambda>_. 0), waitstatesPrefetch = (\<lambda>_. 0),
       waitstatesPrefetch32 = (\<lambda>_. 0), cycles = 0\<rparr>"

definition slot_of_bios :: "region option \<Rightarrow> 'x slot" where
  "slot_of_bios b = (case b of None \<Rightarrow> Null | Some r \<Rightarrow> Mem r)"

definition clear :: "'x mmu \<Rightarrow> 'x mmu" where
  "clear s =
     (let s = s\<lparr>memory := Some
                ([slot_of_bios (bios s), BadMemory,
                  Mem (MemoryBlock_new SIZE_WORKING_RAM 9),
                  Mem (MemoryBlock_new SIZE_WORKING_IRAM 7),
                  Null, Null, Null, Null,
                  BadMemory, BadMemory, BadMemory, BadMemory,
                  BadMemory, BadMemory, BadMemory, BadMemory]
                 @ replicate 240 BadMemory)\<rparr>;
          s = setWaitStates s
      in s\<lparr>cart := None, save := None\<rparr>)"

text \<open>
  Reading and writing an element of a JS array of objects: a read past the end is
  \<open>undefined\<close>, a write past the end extends the array with holes.
\<close>

definition slot_at :: "'x slot list \<Rightarrow> nat \<Rightarrow> 'x slot" where
  "slot_at m i = (if i < length m then m ! i else Null)"

definition slot_set :: "'x slot list \<Rightarrow> nat \<Rightarrow> 'x slot \<Rightarrow> 'x slot list" where
  "slot_set m i x = (if i < length m then m[i := x] else m @ replicate (i - length m) Null @ [x])"

definition mmap :: "nat \<Rightarrow> 'x slot \<Rightarrow> 'x mmu \<Rightarrow> error + 'x mmu" where
  "mmap region object s =
     (case memory s of
        None \<Rightarrow> Inl TypeError
      | Some m \<Rightarrow> Inr (s\<lparr>memory := Some (slot_set m region object)\<rparr>))"

definition loadBios :: "byte list \<Rightarrow> 'x mmu \<Rightarrow> error + 'x mmu" where
  "loadBios b s =
     (case BIOSView_new b 0 of
        Inl e \<Rightarrow> Inl e
      | Inr r \<Rightarrow> Inr (s\<lparr>bios := Some r\<rparr>))"

subsection \<open>Cycle accounting\<close>

definition region_of :: "int \<Rightarrow> nat" where
  "region_of a = nat (js_shr a BASE_OFFSET)"

definition waitPrefetch :: "int \<Rightarrow> 'x mmu \<Rightarrow> 'x mmu" where
  "waitPrefetch a s = s\<lparr>cycles := cycles s + (1 + waitstatesPrefetch s (region_of a))\<rparr>"

definition waitPrefetch32 :: "int \<Rightarrow> 'x mmu \<Rightarrow> 'x mmu" where
  "waitPrefetch32 a s = s\<lparr>cycles := cycles s + (1 + waitstatesPrefetch32 s (region_of a))\<rparr>"

definition wait :: "int \<Rightarrow> 'x mmu \<Rightarrow> 'x mmu" where
  "wait a s = s\<lparr>cycles := cycles s + (1 + waitstates s (region_of a))\<rparr>"

definition wait32 :: "int \<Rightarrow> 'x mmu \<Rightarrow> 'x mmu" where
  "wait32 a s = s\<lparr>cycles := cycles s + (1 + waitstates32 s (region_of a))\<rparr>"

definition waitSeq :: "int \<Rightarrow> 'x mmu \<Rightarrow> 'x mmu" where
  "waitSeq a s = s\<lparr>cycles := cycles s + (1 + waitstatesSeq s (region_of a))\<rparr>"

definition waitSeq32 :: "int \<Rightarrow> 'x mmu \<Rightarrow> 'x mmu" where
  "waitSeq32 a s = s\<lparr>cycles := cycles s + (1 + waitstatesSeq32 s (region_of a))\<rparr>"

text \<open>
  In \<open>rs & (0xffffff00 === 0xffffff00)\<close> the comparison binds tighter than \<open>&\<close>: the
  right operand is the boolean \<open>true\<close>, which \<open>&\<close> converts to 1.
\<close>

definition js_truthy :: "int \<Rightarrow> bool" where
  "js_truthy x \<longleftrightarrow> x \<noteq> 0"

definition waitMul :: "int \<Rightarrow> 'x mmu \<Rightarrow> 'x mmu" where
  "waitMul rs s =
     (if js_truthy (js_and rs (of_bool ((0xffffff00 :: int) = 0xffffff00)))
         \<or> \<not> js_truthy (js_and rs 0xffffff00)
      then s\<lparr>cycles := cycles s + 1\<rparr>
      else if js_truthy (js_and rs (of_bool ((0xffff0000 :: int) = 0xffff0000)))
         \<or> \<not> js_truthy (js_and rs 0xffff0000)
      then s\<lparr>cycles := cycles s + 2\<rparr>
      else if js_truthy (js_and rs (of_bool ((0xff000000 :: int) = 0xff000000)))
         \<or> \<not> js_truthy (js_and rs 0xff000000)
      then s\<lparr>cycles := cycles s + 3\<rparr>
      else s\<lparr>cycles := cycles s + 4\<rparr>)"

definition waitMulti32 :: "int \<Rightarrow> int \<Rightarrow> 'x mmu \<Rightarrow> 'x mmu" where
  "waitMulti32 a seq s =
     (let s = s\<lparr>cycles := cycles s + (1 + waitstates32 s (region_of a))\<rparr>
      in s\<lparr>cycles := cycles s + (1 + waitstatesSeq32 s (region_of a)) * (seq - 1)\<rparr>)"

subsection \<open>The waitstate control register\<close>

text \<open>
  \<open>adjustTimings\<close> is a straight line of array writes.  It is cut here into the
  blocks of the source, each block writing one array: the SRAM entries, the
  non-sequential and the sequential cartridge entries, their 32-bit variants, and the
  prefetch entries.  An assignment \<open>a[i] = a[i + 1] = v\<close> writes \<open>a[i + 1]\<close> first.
\<close>

definition adjust_sram :: "int \<Rightarrow> 'x mmu \<Rightarrow> 'x mmu" where
  "adjust_sram sram s =
     (let s = s\<lparr>waitstates := (waitstates s)(REGION_CART_SRAM := ROM_WS ! nat sram)\<rparr>;
          s = s\<lparr>waitstatesSeq := (waitstatesSeq s)(REGION_CART_SRAM := ROM_WS ! nat sram)\<rparr>;
          s = s\<lparr>waitstates32 := (waitstates32 s)(REGION_CART_SRAM := ROM_WS ! nat sram)\<rparr>
      in s\<lparr>waitstatesSeq32 := (waitstatesSeq32 s)(REGION_CART_SRAM := ROM_WS ! nat sram)\<rparr>)"

definition adjust_nonseq :: "int \<Rightarrow> int \<Rightarrow> int \<Rightarrow> 'x mmu \<Rightarrow> 'x mmu" where
  "adjust_nonseq ws0 ws1 ws2 s =
     s\<lparr>waitstates := (waitstates s)
        (REGION_CART0 + 1 := ROM_WS ! nat ws0, REGION_CART0 := ROM_WS ! nat ws0,
         REGION_CART1 + 1 := ROM_WS ! nat ws1, REGION_CART1 := ROM_WS ! nat ws1,
         REGION_CART2 + 1 := ROM_WS ! nat ws2, REGION_CART2 := ROM_WS ! nat ws2)\<rparr>"

definition adjust_seq :: "int \<Rightarrow> int \<Rightarrow> int \<Rightarrow> 'x mmu \<Rightarrow> 'x mmu" where
  "adjust_seq ws0seq ws1seq ws2seq s =
     s\<lparr>waitstatesSeq := (waitstatesSeq s)
        (REGION_CART0 + 1 := ROM_WS_SEQ ! 0 ! nat ws0seq, REGION_CART0 := ROM_WS_SEQ ! 0 ! nat ws0seq,
         REGION_CART1 + 1 := ROM_WS_SEQ ! 1 ! nat ws1seq, REGION_CART1 := ROM_WS_SEQ ! 1 ! nat ws1seq,
         REGION_CART2 + 1 := ROM_WS_SEQ ! 2 ! nat ws2seq, REGION_CART2 := ROM_WS_SEQ ! 2 ! nat ws2seq)\<rparr>"

definition adjust_32 :: "'x mmu \<Rightarrow> 'x mmu" where
  "adjust_32 s =
     s\<lparr>waitstates32 := (waitstates32 s)
        (REGION_CART0 + 1 := waitstates s REGION_CART0 + 1 + waitstatesSeq s REGION_CART0,
         REGION_CART0 := waitstates s REGION_CART0 + 1 + waitstatesSeq s REGION_CART0,
         REGION_CART1 + 1 := waitstates s REGION_CART1 + 1 + waitstatesSeq s REGION_CART1,
         REGION_CART1 := waitstates s REGION_CART1 + 1 + waitstatesSeq s REGION_CART1,
         REGION_CART2 + 1 := waitstates s REGION_CART2 + 1 + waitstatesSeq s REGION_CART2,
         REGION_CART2 := waitstates s REGION_CART2 + 1 + waitstatesSeq s REGION_CART2)\<rparr>"

definition adjust_seq32 :: "'x mmu \<Rightarrow> 'x mmu" where
  "adjust_seq32 s =
     s\<lparr>waitstatesSeq32 := (waitstatesSeq32 s)
        (REGION_CART0 + 1 := 2 * waitstatesSeq s REGION_CART0 + 1,
         REGION_CART0 := 2 * waitstatesSeq s REGION_CART0 + 1,
         REGION_CART1 + 1 := 2 * waitstatesSeq s REGION_CART1 + 1,
         REGION_CART1 := 2 * waitstatesSeq s REGION_CART1 + 1,
         REGION_CART2 + 1 := 2 * waitstatesSeq s REGION_CART2 + 1,
         REGION_CART2 := 2 * waitstatesSeq s REGION_CART2 + 1)\<rparr>"

definition adjust_prefetch :: "int \<Rightarrow> 'x mmu \<Rightarrow> 'x mmu" where
  "adjust_prefetch prefetch s =
     (if js_truthy prefetch then
        let s = s\<lparr>waitstatesPrefetch := (waitstatesPrefetch s)
                  (REGION_CART0 + 1 := 0, REGION_CART0 := 0,
                   REGION_CART1 + 1 := 0, REGION_CART1 := 0,
                   REGION_CART2 + 1 := 0, REGION_CART2 := 0)\<rparr>
        in s\<lparr>waitstatesPrefetch32 := (waitstatesPrefetch32 s)
                  (REGION_CART0 + 1 := 0, REGION_CART0 := 0,
                   REGION_CART1 + 1 := 0, REGION_CART1 := 0,
                   REGION_CART2 + 1 := 0, REGION_CART2 := 0)\<rparr>
      else
        let s = s\<lparr>waitstatesPrefetch := (waitstatesPrefetch s)
                  (REGION_CART0 + 1 := waitstatesSeq s REGION_CART0,
                   REGION_CART0 := waitstatesSeq s REGION_CART0,
                   REGION_CART1 + 1 := waitstatesSeq s REGION_CART1,
                   REGION_CART1 := waitstatesSeq s REGION_CART1,
                   REGION_CART2 + 1 := waitstatesSeq s REGION_CART2,
                   REGION_CART2 := waitstatesSeq s REGION_CART2)\<rparr>
        in s\<lparr>waitstatesPrefetch32 := (waitstatesPrefetch32 s)
                  (REGION_CART0 + 1 := waitstatesSeq32 s REGION_CART0,
                   REGION_CART0 := waitstatesSeq32 s REGION_CART0,
                   REGION_CART1 + 1 := waitstatesSeq32 s REGION_CART1,
                   REGION_CART1 := waitstatesSeq32 s REGION_CART1,
                   REGION_CART2 + 1 := waitstatesSeq32 s REGION_CART2,
                   REGION_CART2 := waitstatesSeq32 s REGION_CART2)\<rparr>)"

definition adjustTimings :: "int \<Rightarrow> 'x mmu \<Rightarrow> 'x mmu" where
  "adjustTimings word s =
     (let sram = js_and word 0x0003;
          ws0 = js_sar (js_and word 0x000c) 2;
          ws0seq = js_sar (js_and word 0x0010) 4;
          ws1 = js_sar (js_and word 0x0060) 5;
          ws1seq = js_sar (js_and word 0x0080) 7;
          ws2 = js_sar (js_and word 0x0300) 8;
          ws2seq = js_sar (js_and word 0x0400) 10;
          prefetch = js_and word 0x4000
      in adjust_prefetch prefetch
           (adjust_seq32
             (adjust_32
               (adjust_seq ws0seq ws1seq ws2seq
                 (adjust_nonseq ws0 ws1 ws2
                   (adjust_sram sram s))))))"

subsection \<open>Loading a cartridge\<close>

text \<open>The loops that read the title, the game code and the maker code from the header.\<close>

fun header_string :: "region \<Rightarrow> int \<Rightarrow> nat \<Rightarrow> string \<Rightarrow> error + string" where
  "header_string lo offset 0 name = Inr name"
| "header_string lo offset (Suc n) name =
     (case loadU8 lo offset of
        Inl e \<Rightarrow> Inl e
      | Inr c \<Rightarrow>
          if c = 0 then Inr name
          else header_string lo (offset + 1) n (name @ [char_of c]))"

definition save_prefixes :: "string list" where
  "save_prefixes =
     [''F'', ''FL'', ''FLA'', ''FLAS'', ''FLASH'', ''FLASH_'', ''FLASH5'', ''FLASH51'',
      ''FLASH512'', ''FLASH512_'', ''FLASH1'', ''FLASH1M'', ''FLASH1M_'',
      ''S'', ''SR'', ''SRA'', ''SRAM'', ''SRAM_'',
      ''E'', ''EE'', ''EEP'', ''EEPR'', ''EEPRO'', ''EEPROM'', ''EEPROM_'']"

definition save_terminals :: "string list" where
  "save_terminals = [''FLASH_V'', ''FLASH512_V'', ''FLASH1M_V'', ''SRAM_V'', ''EEPROM_V'']"

text \<open>
  The scan for the save type, from offset \<open>i\<close> up to the length of the ROM; the
  result is the final \<open>state\<close> and the flag \<open>terminal\<close>.
\<close>

function scan_save :: "region \<Rightarrow> nat \<Rightarrow> nat \<Rightarrow> string \<Rightarrow> error + string \<times> bool" where
  "scan_save lo n i state =
     (if i < n then
        (case loadU8 lo (int i) of
           Inl e \<Rightarrow> Inl e
         | Inr c \<Rightarrow>
             (let next = [char_of c]; state = state @ next in
              if state \<in> set save_prefixes then scan_save lo n (i + 1) state
              else if state \<in> set save_terminals then Inr (state, True)
              else scan_save lo n (i + 1) next))
      else Inr (state, False))"
  by pat_completeness auto
termination
  by (relation "measure (\<lambda>(lo, n, i, state). n - i)") auto

declare scan_save.simps [simp del]

definition install_save :: "string \<Rightarrow> 'x slot list \<Rightarrow> 'x slot list \<times> nat option" where
  "install_save state m =
     (if state = ''FLASH_V'' \<or> state = ''FLASH512_V''
      then (slot_set m REGION_CART_SRAM (Savedata FlashSavedata SIZE_CART_FLASH512),
            Some REGION_CART_SRAM)
      else if state = ''FLASH1M_V''
      then (slot_set m REGION_CART_SRAM (Savedata FlashSavedata SIZE_CART_FLASH1M),
            Some REGION_CART_SRAM)
      else if state = ''SRAM_V''
      then (slot_set m REGION_CART_SRAM (Savedata SRAMSavedata SIZE_CART_SRAM),
            Some REGION_CART_SRAM)
      else if state = ''EEPROM_V''
      then (slot_set m (REGION_CART2 + 1) (Savedata EEPROMSavedata SIZE_CART_EEPROM),
            Some (REGION_CART2 + 1))
      else (m, None))"

text \<open>
  The part of \<open>loadRom\<close> under \<open>if (process)\<close>: it fills the cartridge record and
  installs the backup.
\<close>

definition process_rom ::
  "region \<Rightarrow> nat \<Rightarrow> cart \<Rightarrow> 'x slot list \<Rightarrow> nat option
     \<Rightarrow> error + cart \<times> 'x slot list \<times> nat option" where
  "process_rom lo n c m sv =
     (case header_string lo 0xa0 12 [] of
        Inl e \<Rightarrow> Inl e
      | Inr name \<Rightarrow>
     (case header_string lo 0xac 4 [] of
        Inl e \<Rightarrow> Inl e
      | Inr cd \<Rightarrow>
     (case header_string lo 0xb0 2 [] of
        Inl e \<Rightarrow> Inl e
      | Inr mk \<Rightarrow>
     (case scan_save lo n 0xe4 [] of
        Inl e \<Rightarrow> Inl e
      | Inr (state, terminal) \<Rightarrow>
        (let c = c\<lparr>title := Some name, code := Some cd, maker := Some mk\<rparr>;
             (c, m, sv) =
               (if terminal
                then (case install_save state m of
                        (m', None) \<Rightarrow> (c\<lparr>saveType := Some state\<rparr>, m', sv)
                      | (m', Some i) \<Rightarrow> (c\<lparr>saveType := Some state\<rparr>, m', Some i))
                else (c, m, sv));
             (m, sv) =
               (if sv = None
                then (slot_set m REGION_CART_SRAM (Savedata SRAMSavedata SIZE_CART_SRAM),
                      Some REGION_CART_SRAM)
                else (m, sv))
         in Inr (c, m, sv))))))"

text \<open>
  \<open>loadRom(rom, process)\<close> returns the cartridge record, or \<open>undefined\<close> (\<open>None\<close>) when the
  header byte is wrong.  The three cartridge windows are given the same \<open>ROMView\<close>
  object; each slot holds its own copy here.
\<close>

definition loadRom :: "byte list \<Rightarrow> bool \<Rightarrow> 'x mmu \<Rightarrow> error + cart option \<times> 'x mmu" where
  "loadRom rom process s =
     (case ROMView_new rom 0 of
        Inl e \<Rightarrow> Inl e
      | Inr lo \<Rightarrow>
     (case getUint8 (view lo) 0xb2 of
        Inl e \<Rightarrow> Inl e
      | Inr b \<Rightarrow>
     (if b \<noteq> 0x96 then Inr (None, s)
      else
        (let c = \<lparr>title = None, code = None, maker = None, cart_memory = rom, saveType = None\<rparr>
         in (case memory s of
               None \<Rightarrow> Inl TypeError
             | Some m \<Rightarrow>
            (let m = slot_set m REGION_CART0 (Mem lo);
                 m = slot_set m REGION_CART1 (Mem lo);
                 m = slot_set m REGION_CART2 (Mem lo)
             in (case (if length rom > 0x01000000
                       then (case ROMView_new rom 0x01000000 of
                               Inl e \<Rightarrow> Inl e
                             | Inr hi \<Rightarrow>
                                 Inr (slot_set (slot_set (slot_set m (REGION_CART0 + 1) (Mem hi))
                                        (REGION_CART1 + 1) (Mem hi)) (REGION_CART2 + 1) (Mem hi)))
                       else Inr m) of
                   Inl e \<Rightarrow> Inl e
                 | Inr m \<Rightarrow>
                     (case (if process then process_rom lo (length rom) c m (save s)
                            else Inr (c, m, save s)) of
                        Inl e \<Rightarrow> Inl e
                      | Inr (c, m, sv) \<Rightarrow>
                          Inr (Some c, s\<lparr>memory := Some m, save := sv, cart := Some c\<rparr>)))))))))"

text \<open>A ROM image of 256 zero bytes: its header byte is wrong.\<close>

definition rom_zero :: "byte list" where
  "rom_zero = replicate 256 0"

subsection \<open>Stores and page invalidation\<close>

definition MemoryView_store8 :: "region \<Rightarrow> int \<Rightarrow> int \<Rightarrow> error + region" where
  "MemoryView_store8 r offset v =
     (case setInt8 (view r) (js_and offset (mask8 r)) v of
        Inl e \<Rightarrow> Inl e | Inr bytes \<Rightarrow> Inr (r\<lparr>view := bytes\<rparr>))"

definition MemoryView_store16 :: "region \<Rightarrow> int \<Rightarrow> int \<Rightarrow> error + region" where
  "MemoryView_store16 r offset v =
     (case setInt16 (view r) (js_and offset (mask16 r)) v True of
        Inl e \<Rightarrow> Inl e | Inr bytes \<Rightarrow> Inr (r\<lparr>view := bytes\<rparr>))"

definition MemoryView_store32 :: "region \<Rightarrow> int \<Rightarrow> int \<Rightarrow> error + region" where
  "MemoryView_store32 r offset v =
     (case setInt32 (view r) (js_and offset (mask32 r)) v True of
        Inl e \<Rightarrow> Inl e | Inr bytes \<Rightarrow> Inr (r\<lparr>view := bytes\<rparr>))"

text \<open>
  A ROM view forwards the 16- and 32-bit stores between \<open>0xc4\<close> and \<open>0xca\<close> to its
  GPIO object, which it allocates on first use; the forwarded store is recorded with
  its width.
\<close>

definition gpio_forward :: "nat \<Rightarrow> region \<Rightarrow> int \<Rightarrow> int \<Rightarrow> region" where
  "gpio_forward w r offset v =
     (if offset < 0xca \<and> offset \<ge> 0xc4
      then r\<lparr>gpio := Some ((case gpio r of None \<Rightarrow> [] | Some log \<Rightarrow> log) @ [(w, offset, v)])\<rparr>
      else r)"

definition store8 :: "region \<Rightarrow> int \<Rightarrow> int \<Rightarrow> error + region" where
  "store8 r offset v =
     (case kind r of
        MemoryBlock \<Rightarrow> MemoryView_store8 r offset v
      | ROMView \<Rightarrow> Inr r
      | BIOSView \<Rightarrow> Inr r)"

definition store16 :: "region \<Rightarrow> int \<Rightarrow> int \<Rightarrow> error + region" where
  "store16 r offset v =
     (case kind r of
        MemoryBlock \<Rightarrow> MemoryView_store16 r offset v
      | ROMView \<Rightarrow> Inr (gpio_forward 16 r offset v)
      | BIOSView \<Rightarrow> Inr r)"

definition store32 :: "region \<Rightarrow> int \<Rightarrow> int \<Rightarrow> error + region" where
  "store32 r offset v =
     (case kind r of
        MemoryBlock \<Rightarrow> MemoryView_store32 r offset v
      | ROMView \<Rightarrow> Inr (gpio_forward 32 r offset v)
      | BIOSView \<Rightarrow> Inr r)"

text \<open>
  \<open>MemoryBlock.invalidatePage\<close> marks the page it finds and then assigns 4 to
  \<open>ICACHE_PAGE_BITS\<close>.  The other classes inherit the empty method of \<open>MemoryView\<close>.
\<close>

definition MemoryBlock_invalidatePage :: "region \<Rightarrow> int \<Rightarrow> region" where
  "MemoryBlock_invalidatePage r address =
     (let i = js_sar (js_and address (maskR r)) (ICACHE_PAGE_BITS r);
          r = (case icache r i of
                 None \<Rightarrow> r
               | Some page \<Rightarrow> r\<lparr>icache := (icache r)(i \<mapsto> page\<lparr>invalid := True\<rparr>)\<rparr>)
      in r\<lparr>ICACHE_PAGE_BITS := 4\<rparr>)"

definition invalidatePage :: "region \<Rightarrow> int \<Rightarrow> region" where
  "invalidatePage r address =
     (case kind r of
        MemoryBlock \<Rightarrow> MemoryBlock_invalidatePage r address
      | ROMView \<Rightarrow> r
      | BIOSView \<Rightarrow> r)"

subsection \<open>The bus\<close>

text \<open>
  The code of the objects in \<open>IO\<close>, \<open>Savedata\<close> and \<open>Foreign\<close> slots, the loads of the
  open-bus object (which read the CPU registers) and the audio component are outside the
  memory subsystem: they are parameters.  A load sees the whole memory array and the
  number of the slot it is made on; a store or an invalidation returns the new state of
  the object it is made on.
\<close>

datatype load_kind = Load8 | Load16 | LoadU8 | LoadU16 | Load32

datatype dma_control = DMA_INCREMENT | DMA_DECREMENT | DMA_FIXED | DMA_INCREMENT_RELOAD

datatype dma_timing = DMA_TIMING_NOW | DMA_TIMING_VBLANK | DMA_TIMING_HBLANK | DMA_TIMING_CUSTOM

text \<open>The record of a DMA channel (\<open>cpu.irq.dma[i]\<close>).\<close>

record dma_info =
  enable :: bool
  repeat :: bool
  doIrq :: bool
  width :: int
  srcControl :: dma_control
  dstControl :: dma_control
  timing :: dma_timing
  source :: int
  dest :: int
  count :: int
  nextSource :: int
  nextDest :: int
  nextCount :: int
  nextIRQ :: int

record 'x env =
  ext_load :: "load_kind \<Rightarrow> 'x slot list \<Rightarrow> nat \<Rightarrow> int \<Rightarrow> error + int"
  ext_store :: "nat \<Rightarrow> 'x slot \<Rightarrow> int \<Rightarrow> int \<Rightarrow> error + 'x slot"
  ext_invalidatePage :: "'x slot \<Rightarrow> int \<Rightarrow> error + 'x slot"
  scheduleFIFODma :: "nat \<Rightarrow> dma_info \<Rightarrow> error + dma_info"

definition region_load :: "load_kind \<Rightarrow> region \<Rightarrow> int \<Rightarrow> error + int" where
  "region_load k r offset =
     (case k of
        Load8 \<Rightarrow> load8 r offset
      | Load16 \<Rightarrow> load16 r offset
      | LoadU8 \<Rightarrow> loadU8 r offset
      | LoadU16 \<Rightarrow> loadU16 r offset
      | Load32 \<Rightarrow> load32 r offset)"

definition region_store :: "nat \<Rightarrow> region \<Rightarrow> int \<Rightarrow> int \<Rightarrow> error + region" where
  "region_store w r offset v =
     (if w = 8 then store8 r offset v
      else if w = 16 then store16 r offset v
      else store32 r offset v)"

text \<open>A method call on the object in slot \<open>i\<close> of the memory array \<open>m\<close>.\<close>

definition slot_load :: "'x env \<Rightarrow> load_kind \<Rightarrow> 'x slot list \<Rightarrow> nat \<Rightarrow> int \<Rightarrow> error + int" where
  "slot_load env k m i offset =
     (case slot_at m i of
        Null \<Rightarrow> Inl TypeError
      | Mem r \<Rightarrow> region_load k r offset
      | _ \<Rightarrow> ext_load env k m i offset)"

definition slot_store :: "'x env \<Rightarrow> nat \<Rightarrow> 'x slot \<Rightarrow> int \<Rightarrow> int \<Rightarrow> error + 'x slot" where
  "slot_store env w sl offset v =
     (case sl of
        Null \<Rightarrow> Inl TypeError
      | Mem r \<Rightarrow> (case region_store w r offset v of Inl e \<Rightarrow> Inl e | Inr r' \<Rightarrow> Inr (Mem r'))
      | BadMemory \<Rightarrow> Inr BadMemory
      | _ \<Rightarrow> ext_store env w sl offset v)"

definition slot_invalidatePage :: "'x env \<Rightarrow> 'x slot \<Rightarrow> int \<Rightarrow> error + 'x slot" where
  "slot_invalidatePage env sl address =
     (case sl of
        Null \<Rightarrow> Inl TypeError
      | Mem r \<Rightarrow> Inr (Mem (invalidatePage r address))
      | BadMemory \<Rightarrow> Inr BadMemory
      | _ \<Rightarrow> ext_invalidatePage env sl address)"

text \<open>
  The loads and stores of the MMU itself.  The object is mutated in place, so the
  result is written back to the slot it was taken from.
\<close>

definition mmu_load :: "'x env \<Rightarrow> load_kind \<Rightarrow> int \<Rightarrow> 'x mmu \<Rightarrow> error + int" where
  "mmu_load env k offset s =
     (case memory s of
        None \<Rightarrow> Inl TypeError
      | Some m \<Rightarrow> slot_load env k m (region_of offset) (js_and offset 0x00ffffff))"

definition mmu_store8 :: "'x env \<Rightarrow> int \<Rightarrow> int \<Rightarrow> 'x mmu \<Rightarrow> error + 'x mmu" where
  "mmu_store8 env offset v s =
     (case memory s of
        None \<Rightarrow> Inl TypeError
      | Some m \<Rightarrow>
          (let maskedOffset = js_and offset 0x00ffffff;
               i = region_of offset
           in (case slot_store env 8 (slot_at m i) maskedOffset v of
                 Inl e \<Rightarrow> Inl e
               | Inr sl \<Rightarrow>
               (case slot_invalidatePage env sl maskedOffset of
                  Inl e \<Rightarrow> Inl e
                | Inr sl \<Rightarrow> Inr (s\<lparr>memory := Some (slot_set m i sl)\<rparr>)))))"

definition mmu_store16 :: "'x env \<Rightarrow> int \<Rightarrow> int \<Rightarrow> 'x mmu \<Rightarrow> error + 'x mmu" where
  "mmu_store16 env offset v s =
     (case memory s of
        None \<Rightarrow> Inl TypeError
      | Some m \<Rightarrow>
          (let maskedOffset = js_and offset 0x00fffffe;
               i = region_of offset
           in (case slot_store env 16 (slot_at m i) maskedOffset v of
                 Inl e \<Rightarrow> Inl e
               | Inr sl \<Rightarrow>
               (case slot_invalidatePage env sl maskedOffset of
                  Inl e \<Rightarrow> Inl e
                | Inr sl \<Rightarrow> Inr (s\<lparr>memory := Some (slot_set m i sl)\<rparr>)))))"

definition mmu_store32 :: "'x env \<Rightarrow> int \<Rightarrow> int \<Rightarrow> 'x mmu \<Rightarrow> error + 'x mmu" where
  "mmu_store32 env offset v s =
     (case memory s of
        None \<Rightarrow> Inl TypeError
      | Some m \<Rightarrow>
          (let maskedOffset = js_and offset 0x00fffffc;
               i = region_of offset
           in (case slot_store env 32 (slot_at m i) maskedOffset v of
                 Inl e \<Rightarrow> Inl e
               | Inr sl \<Rightarrow>
               (case slot_invalidatePage env sl maskedOffset of
                  Inl e \<Rightarrow> Inl e
                | Inr sl \<Rightarrow>
                (case slot_invalidatePage env sl (maskedOffset + 2) of
                   Inl e \<Rightarrow> Inl e
                 | Inr sl \<Rightarrow> Inr (s\<lparr>memory := Some (slot_set m i sl)\<rparr>))))))"

subsection \<open>The instruction cache\<close>

definition addressToPage :: "nat \<Rightarrow> int \<Rightarrow> 'x mmu \<Rightarrow> error + int" where
  "addressToPage region address s =
     (case memory s of
        None \<Rightarrow> Inl TypeError
      | Some m \<Rightarrow>
          (case slot_at m region of
             Null \<Rightarrow> Inl TypeError
           | Mem r \<Rightarrow> Inr (js_sar address (ICACHE_PAGE_BITS r))
           | _ \<Rightarrow> Inr (js_sar address 0)))"

text \<open>
  \<open>accessPage(region, pageId)\<close> returns the page, which it creates when the slot of
  the cache is empty or holds an invalid page.  On an object without \<open>icache\<close> the
  method throws an \<open>Error\<close>.
\<close>

definition new_page :: "region \<Rightarrow> error + page" where
  "new_page r =
     (let t = js_shl 1 (ICACHE_PAGE_BITS r); a = js_shl 1 (ICACHE_PAGE_BITS r - 1) in
      if t < 0 \<or> a < 0 then Inl RangeError
      else Inr \<lparr>thumb = nat t, arm = nat a, invalid = False\<rparr>)"

definition accessPage :: "nat \<Rightarrow> int \<Rightarrow> 'x mmu \<Rightarrow> error + page \<times> 'x mmu" where
  "accessPage region pageId s =
     (case memory s of
        None \<Rightarrow> Inl TypeError
      | Some m \<Rightarrow>
          (case slot_at m region of
             Null \<Rightarrow> Inl TypeError
           | Mem r \<Rightarrow>
               (case icache r pageId of
                  Some page \<Rightarrow>
                    if invalid page
                    then (case new_page r of
                            Inl e \<Rightarrow> Inl e
                          | Inr page \<Rightarrow>
                              Inr (page, s\<lparr>memory := Some (slot_set m region
                                     (Mem (r\<lparr>icache := (icache r)(pageId \<mapsto> page)\<rparr>)))\<rparr>))
                    else Inr (page, s)
                | None \<Rightarrow>
                    (case new_page r of
                       Inl e \<Rightarrow> Inl e
                     | Inr page \<Rightarrow>
                         Inr (page, s\<lparr>memory := Some (slot_set m region
                                (Mem (r\<lparr>icache := (icache r)(pageId \<mapsto> page)\<rparr>)))\<rparr>)))
           | _ \<Rightarrow> Inl Error))"

text \<open>
  The addresses a page of the cache stands for: the page stored at index \<open>i\<close> with a
  \<open>thumb\<close> array of \<open>n\<close> entries was created for the addresses \<open>a\<close> with
  \<open>a >> b = i\<close>, where \<open>n = 1 << b\<close>.
\<close>

definition page_covers :: "int \<Rightarrow> page \<Rightarrow> int \<Rightarrow> bool" where
  "page_covers i p a \<longleftrightarrow> i * int (thumb p) \<le> a \<and> a < (i + 1) * int (thumb p)"

text \<open>
  A run on the reset machine: the CPU takes page 0 of working RAM, then two bytes are
  stored through the bus, at \<open>0x02000200\<close> and at \<open>0x02000010\<close>.
\<close>

definition icache_run :: "'x env \<Rightarrow> error + 'x mmu" where
  "icache_run env =
     (case accessPage REGION_WORKING_RAM 0 (clear GameBoyAdvanceMMU_new) of
        Inl e \<Rightarrow> Inl e
      | Inr (page, s) \<Rightarrow>
          (case mmu_store8 env 0x02000200 0xab s of
             Inl e \<Rightarrow> Inl e
           | Inr s \<Rightarrow> mmu_store8 env 0x02000010 0xcd s))"

subsection \<open>The DMA engine\<close>

fun DMA_OFFSET :: "dma_control \<Rightarrow> int" where
  "DMA_OFFSET DMA_INCREMENT = 1"
| "DMA_OFFSET DMA_DECREMENT = - 1"
| "DMA_OFFSET DMA_FIXED = 0"
| "DMA_OFFSET DMA_INCREMENT_RELOAD = 1"

text \<open>The indices of \<open>DMA0CNT_HI\<close> to \<open>DMA3CNT_HI\<close> in the register array.\<close>

definition DMA_REGISTER :: "nat list" where
  "DMA_REGISTER = [0x0ba div 2, 0x0c6 div 2, 0x0d2 div 2, 0x0de div 2]"

definition setUint16 :: "byte list \<Rightarrow> int \<Rightarrow> int \<Rightarrow> bool \<Rightarrow> error + byte list" where
  "setUint16 v i x littleEndian = setInt16 v i x littleEndian"

text \<open>
  The page invalidation at the start of a transfer.  \<open>endPage\<close> and the first page are
  computed once; the shift in the body of the loop reads \<open>ICACHE_PAGE_BITS\<close> anew in
  each round.
\<close>

definition dma_invalidate :: "'x slot \<Rightarrow> int \<Rightarrow> int \<Rightarrow> int \<Rightarrow> error + 'x slot" where
  "dma_invalidate destBlock dst wordsRemaining w =
     (case destBlock of
        Null \<Rightarrow> Inl TypeError
      | Mem r \<Rightarrow>
          if js_truthy (ICACHE_PAGE_BITS r)
          then (let endPage = js_sar (dst + wordsRemaining * w) (ICACHE_PAGE_BITS r) in
                Inr (Mem (foldl (\<lambda>r i. invalidatePage r (js_shl i (ICACHE_PAGE_BITS r))) r
                            [js_sar dst (ICACHE_PAGE_BITS r) .. endPage])))
          else Inr (Mem r)
      | _ \<Rightarrow> Inr destBlock)"

text \<open>
  One round of each of the six transfer loops, on the memory array.  The raw views are
  those of the regions in the slots \<open>sr\<close> and \<open>dr\<close>; a view read or written without
  the \<open>littleEndian\<close> argument is big-endian.
\<close>

definition step_vv32 :: "nat \<Rightarrow> nat \<Rightarrow> int \<Rightarrow> int \<Rightarrow> 'x slot list \<Rightarrow> error + 'x slot list" where
  "step_vv32 sr dr src dst m =
     (case (slot_at m sr, slot_at m dr) of
        (Mem rs, Mem rd) \<Rightarrow>
          (case getInt32 (view rs) (js_and src (maskR rs)) False of
             Inl e \<Rightarrow> Inl e
           | Inr word \<Rightarrow>
               (case setInt32 (view rd) (js_and dst (maskR rd)) word False of
                  Inl e \<Rightarrow> Inl e
                | Inr bytes \<Rightarrow> Inr (slot_set m dr (Mem (rd\<lparr>view := bytes\<rparr>)))))
      | _ \<Rightarrow> Inl TypeError)"

definition step_vv16 :: "nat \<Rightarrow> nat \<Rightarrow> int \<Rightarrow> int \<Rightarrow> 'x slot list \<Rightarrow> error + 'x slot list" where
  "step_vv16 sr dr src dst m =
     (case (slot_at m sr, slot_at m dr) of
        (Mem rs, Mem rd) \<Rightarrow>
          (case getUint16 (view rs) (js_and src (maskR rs)) False of
             Inl e \<Rightarrow> Inl e
           | Inr word \<Rightarrow>
               (case setUint16 (view rd) (js_and dst (maskR rd)) word False of
                  Inl e \<Rightarrow> Inl e
                | Inr bytes \<Rightarrow> Inr (slot_set m dr (Mem (rd\<lparr>view := bytes\<rparr>)))))
      | _ \<Rightarrow> Inl TypeError)"

definition store_to :: "'x env \<Rightarrow> nat \<Rightarrow> nat \<Rightarrow> int \<Rightarrow> int \<Rightarrow> 'x slot list \<Rightarrow> error + 'x slot list" where
  "store_to env w dr dst word m =
     (case slot_store env w (slot_at m dr) dst word of
        Inl e \<Rightarrow> Inl e
      | Inr sl \<Rightarrow> Inr (slot_set m dr sl))"

definition step_vs32 :: "'x env \<Rightarrow> nat \<Rightarrow> nat \<Rightarrow> int \<Rightarrow> int \<Rightarrow> 'x slot list \<Rightarrow> error + 'x slot list" where
  "step_vs32 env sr dr src dst m =
     (case slot_at m sr of
        Mem rs \<Rightarrow>
          (case getInt32 (view rs) (js_and src (maskR rs)) True of
             Inl e \<Rightarrow> Inl e
           | Inr word \<Rightarrow> store_to env 32 dr dst word m)
      | _ \<Rightarrow> Inl TypeError)"

definition step_vs16 :: "'x env \<Rightarrow> nat \<Rightarrow> nat \<Rightarrow> int \<Rightarrow> int \<Rightarrow> 'x slot list \<Rightarrow> error + 'x slot list" where
  "step_vs16 env sr dr src dst m =
     (case slot_at m sr of
        Mem rs \<Rightarrow>
          (case getUint16 (view rs) (js_and src (maskR rs)) True of
             Inl e \<Rightarrow> Inl e
           | Inr word \<Rightarrow> store_to env 16 dr dst word m)
      | _ \<Rightarrow> Inl TypeError)"

definition step_ls32 :: "'x env \<Rightarrow> nat \<Rightarrow> nat \<Rightarrow> int \<Rightarrow> int \<Rightarrow> 'x slot list \<Rightarrow> error + 'x slot list" where
  "step_ls32 env sr dr src dst m =
     (case slot_load env Load32 m sr src of
        Inl e \<Rightarrow> Inl e
      | Inr word \<Rightarrow> store_to env 32 dr dst word m)"

definition step_ls16 :: "'x env \<Rightarrow> nat \<Rightarrow> nat \<Rightarrow> int \<Rightarrow> int \<Rightarrow> 'x slot list \<Rightarrow> error + 'x slot list" where
  "step_ls16 env sr dr src dst m =
     (case slot_load env LoadU16 m sr src of
        Inl e \<Rightarrow> Inl e
      | Inr word \<Rightarrow> store_to env 16 dr dst word m)"

text \<open>
  The loop \<open>while (wordsRemaining--) { ...; source += sourceOffset; dest += destOffset }\<close>
  around a round.  The test reads the counter and then decrements it, so the counter is
  \<open>-1\<close> after a loop that ended.  A negative counter never reaches 0: the loop runs until
  a round throws, or for ever (\<open>None\<close>).
\<close>

partial_function (option) dma_loop ::
  "(int \<Rightarrow> int \<Rightarrow> 'm \<Rightarrow> error + 'm) \<Rightarrow> int \<Rightarrow> int \<Rightarrow> int \<Rightarrow> int \<Rightarrow> int \<Rightarrow> 'm
     \<Rightarrow> (error + 'm \<times> int \<times> int \<times> int) option" where
  "dma_loop step sourceOffset destOffset wordsRemaining src dst m =
     (if wordsRemaining = 0 then Some (Inr (m, src, dst, wordsRemaining - 1))
      else case step src dst m of
             Inl e \<Rightarrow> Some (Inl e)
           | Inr m' \<Rightarrow>
               dma_loop step sourceOffset destOffset (wordsRemaining - 1)
                 (src + sourceOffset) (dst + destOffset) m')"

definition is_null :: "'x slot \<Rightarrow> bool" where
  "is_null sl = (case sl of Null \<Rightarrow> True | _ \<Rightarrow> False)"

definition has_view :: "'x slot \<Rightarrow> bool" where
  "has_view sl = (case sl of Mem r \<Rightarrow> True | _ \<Rightarrow> False)"

text \<open>
  The choice between the three paths, each in a 32-bit and a 16-bit form.  \<open>destView\<close>
  is taken for the regions 2 and 3, \<open>sourceView\<close> for the regions 2, 3, 8 and 10; the
  open-bus object has no \<open>view\<close>, so a transfer from it takes the third path.
\<close>

definition dma_transfer ::
  "'x env \<Rightarrow> int \<Rightarrow> int \<Rightarrow> int \<Rightarrow> nat \<Rightarrow> nat \<Rightarrow> int \<Rightarrow> int \<Rightarrow> int \<Rightarrow> 'x slot list
     \<Rightarrow> (error + 'x slot list \<times> int \<times> int \<times> int) option" where
  "dma_transfer env w sourceOffset destOffset sr dr wordsRemaining src dst m =
     (let sourceBlock = slot_at m sr;
          destBlock = slot_at m dr;
          destView = ((dr = REGION_WORKING_RAM \<or> dr = REGION_WORKING_IRAM) \<and> has_view destBlock);
          wantSource = (sr = REGION_WORKING_RAM \<or> sr = REGION_WORKING_IRAM
                         \<or> sr = REGION_CART0 \<or> sr = REGION_CART1);
          sourceView = (wantSource \<and> has_view sourceBlock)
      in
      if wantSource \<and> is_null sourceBlock then Some (Inl TypeError)
      else if \<not> is_null sourceBlock \<and> \<not> is_null destBlock then
        (if sourceView \<and> destView then
           (if w = 4
            then dma_loop (step_vv32 sr dr) sourceOffset destOffset wordsRemaining
                   (js_and src 0xfffffffc) (js_and dst 0xfffffffc) m
            else dma_loop (step_vv16 sr dr) sourceOffset destOffset wordsRemaining src dst m)
         else if sourceView then
           (if w = 4
            then dma_loop (step_vs32 env sr dr) sourceOffset destOffset wordsRemaining
                   (js_and src 0xfffffffc) (js_and dst 0xfffffffc) m
            else dma_loop (step_vs16 env sr dr) sourceOffset destOffset wordsRemaining src dst m)
         else
           (if w = 4
            then dma_loop (step_ls32 env sr dr) sourceOffset destOffset wordsRemaining
                   (js_and src 0xfffffffc) (js_and dst 0xfffffffc) m
            else dma_loop (step_ls16 env sr dr) sourceOffset destOffset wordsRemaining src dst m))
      else Some (Inr (m, src, dst, wordsRemaining)))"

definition dma_irq :: "nat \<Rightarrow> nat \<Rightarrow> 'x mmu \<Rightarrow> dma_info \<Rightarrow> dma_info" where
  "dma_irq sr dr s info =
     (if doIrq info then
        (let info = info\<lparr>nextIRQ := cycles s + 2\<rparr>;
             info = info\<lparr>nextIRQ := nextIRQ info +
                      (if width info = 4 then waitstates32 s sr + waitstates32 s dr
                       else waitstates s sr + waitstates s dr)\<rparr>
         in info\<lparr>nextIRQ := nextIRQ info +
                      (count info - 1) *
                      (if width info = 4 then waitstatesSeq32 s sr + waitstatesSeq32 s dr
                       else waitstatesSeq s sr + waitstatesSeq s dr)\<rparr>)
      else info)"

text \<open>
  \<open>io.registers[DMA_REGISTER[dma]] &= 0x7fe0\<close> on the object in the I/O slot.  A write
  to a typed array at an index it does not have is ignored.
\<close>

definition clear_enable_bit :: "nat \<Rightarrow> 'x slot list \<Rightarrow> error + 'x slot list" where
  "clear_enable_bit dma m =
     (case slot_at m REGION_IO of
        IO registers x \<Rightarrow>
          Inr (slot_set m REGION_IO
                 (IO (if dma < length DMA_REGISTER \<and> DMA_REGISTER ! dma < length registers
                      then registers[DMA_REGISTER ! dma :=
                             registers ! (DMA_REGISTER ! dma) AND 0x7fe0]
                      else registers) x))
      | _ \<Rightarrow> Inl TypeError)"

text \<open>
  \<open>serviceDma\<close> up to its last statement: the result is the channel record, the state,
  and whether the transfer is to be scheduled again.
\<close>

definition dma_bookkeeping ::
  "nat \<Rightarrow> dma_info \<Rightarrow> 'x mmu \<Rightarrow> nat \<Rightarrow> nat \<Rightarrow> 'x slot list \<Rightarrow> int \<Rightarrow> int \<Rightarrow> int
     \<Rightarrow> error + dma_info \<times> 'x mmu \<times> bool" where
  "dma_bookkeeping dma info s sourceRegion destRegion m src dst wordsRemaining =
     (let info = dma_irq sourceRegion destRegion s info;
          info = info\<lparr>nextSource := js_or src (js_shl (int sourceRegion) BASE_OFFSET)\<rparr>;
          info = info\<lparr>nextDest := js_or dst (js_shl (int destRegion) BASE_OFFSET)\<rparr>;
          info = info\<lparr>nextCount := wordsRemaining\<rparr>
      in if \<not> repeat info then
           (case clear_enable_bit dma m of
              Inl e \<Rightarrow> Inl e
            | Inr m \<Rightarrow> Inr (info\<lparr>enable := False\<rparr>, s\<lparr>memory := Some m\<rparr>, False))
         else
           (let info = info\<lparr>nextCount := count info\<rparr>;
                info = (if dstControl info = DMA_INCREMENT_RELOAD
                        then info\<lparr>nextDest := dest info\<rparr> else info)
            in Inr (info, s\<lparr>memory := Some m\<rparr>, True)))"

definition serviceDma_body ::
  "'x env \<Rightarrow> nat \<Rightarrow> dma_info \<Rightarrow> 'x mmu \<Rightarrow> (error + dma_info \<times> 'x mmu \<times> bool) option" where
  "serviceDma_body env dma info s =
     (case memory s of
        None \<Rightarrow> Some (Inl TypeError)
      | Some m \<Rightarrow>
          (let w = width info;
               sourceOffset = DMA_OFFSET (srcControl info) * w;
               destOffset = DMA_OFFSET (dstControl info) * w;
               sourceRegion = region_of (nextSource info);
               destRegion = region_of (nextDest info);
               wordsRemaining = nextCount info;
               src = js_and (nextSource info) OFFSET_MASK;
               dst = js_and (nextDest info) OFFSET_MASK
           in case dma_invalidate (slot_at m destRegion) dst wordsRemaining w of
                Inl e \<Rightarrow> Some (Inl e)
              | Inr destBlock \<Rightarrow>
                  (case dma_transfer env w sourceOffset destOffset sourceRegion destRegion
                          wordsRemaining src dst (slot_set m destRegion destBlock) of
                     None \<Rightarrow> None
                   | Some (Inl e) \<Rightarrow> Some (Inl e)
                   | Some (Inr (m, src, dst, wordsRemaining)) \<Rightarrow>
                       Some (dma_bookkeeping dma info s sourceRegion destRegion
                               m src dst wordsRemaining))))"

text \<open>
  \<open>serviceDma\<close> and \<open>scheduleDma\<close> call each other; the first argument bounds the
  depth of the calls, and \<open>None\<close> is a call that needs more.  The video component has no
  \<open>scheduleVCaptureDma\<close>, as the warning before the call says: the call throws.
\<close>

fun serviceDma ::
      "nat \<Rightarrow> 'x env \<Rightarrow> nat \<Rightarrow> dma_info \<Rightarrow> 'x mmu \<Rightarrow> (error + dma_info \<times> 'x mmu) option"
  and scheduleDma ::
      "nat \<Rightarrow> 'x env \<Rightarrow> nat \<Rightarrow> dma_info \<Rightarrow> 'x mmu \<Rightarrow> (error + dma_info \<times> 'x mmu) option" where
  "serviceDma 0 env dma info s = None"
| "serviceDma (Suc k) env dma info s =
     (if \<not> enable info then Some (Inr (info, s))
      else case serviceDma_body env dma info s of
             None \<Rightarrow> None
           | Some (Inl e) \<Rightarrow> Some (Inl e)
           | Some (Inr (info, s, again)) \<Rightarrow>
               if again then scheduleDma k env dma info s else Some (Inr (info, s)))"
| "scheduleDma 0 env dma info s = None"
| "scheduleDma (Suc k) env dma info s =
     (case timing info of
        DMA_TIMING_NOW \<Rightarrow> serviceDma k env dma info s
      | DMA_TIMING_HBLANK \<Rightarrow> Some (Inr (info, s))
      | DMA_TIMING_VBLANK \<Rightarrow> Some (Inr (info, s))
      | DMA_TIMING_CUSTOM \<Rightarrow>
          if dma = 0 then Some (Inr (info, s))
          else if dma = 1 \<or> dma = 2 then
            (case scheduleFIFODma env dma info of
               Inl e \<Rightarrow> Some (Inl e)
             | Inr info \<Rightarrow> Some (Inr (info, s)))
          else if dma = 3 then Some (Inl TypeError)
          else Some (Inr (info, s)))"

text \<open>The test \<open>io.registers[DMA_REGISTER[dma]] & 0x8000\<close> of the enable bit of a channel.\<close>

definition enable_bit_set :: "16 word list \<Rightarrow> nat \<Rightarrow> bool" where
  "enable_bit_set registers dma \<longleftrightarrow>
     dma < length DMA_REGISTER \<and> DMA_REGISTER ! dma < length registers \<and>
     bit (registers ! (DMA_REGISTER ! dma)) 15"

text \<open>
  The regions the three 32-bit paths can all be run on: the source is a RAM block or a
  ROM view, so that it has a raw view and the \<open>load32\<close> of \<open>MemoryView\<close>; the
  destination is a RAM block, so that it has a raw view and a \<open>store32\<close> that writes.
\<close>

definition dma_ok :: "'x slot list \<Rightarrow> nat \<Rightarrow> nat \<Rightarrow> bool" where
  "dma_ok m sr dr \<longleftrightarrow>
     (case slot_at m sr of
        Mem rs \<Rightarrow> kind rs \<noteq> BIOSView \<and> masks_reset rs
      | _ \<Rightarrow> False) \<and>
     (case slot_at m dr of
        Mem rd \<Rightarrow> kind rd = MemoryBlock \<and> masks_reset rd
      | _ \<Rightarrow> False)"

text \<open>
  Collaborators for the concrete runs: foreign objects that ignore stores and an audio
  component that leaves the channel record as it is.  The memory of the runs has two
  eight-byte RAM blocks in the slots of working RAM and an I/O block whose register
  \<open>DMA3CNT_HI\<close> has the enable bit set.
\<close>

definition idle_env :: "unit env" where
  "idle_env = \<lparr>ext_load = (\<lambda>k m i a. Inl TypeError), ext_store = (\<lambda>w sl a v. Inr sl),
     ext_invalidatePage = (\<lambda>sl a. Inr sl), scheduleFIFODma = (\<lambda>d i. Inr i)\<rparr>"

definition dma_example_memory :: "unit slot list" where
  "dma_example_memory =
     [Null, Null, Mem ram_example, Mem (MemoryBlock_new 8 7),
      IO ((replicate 0x400 0)[111 := 0x8400]) ()]"

definition dma_example_state :: "unit mmu" where
  "dma_example_state = GameBoyAdvanceMMU_new\<lparr>memory := Some dma_example_memory\<rparr>"

definition dma_example_info :: dma_info where
  "dma_example_info =
     \<lparr>enable = True, repeat = False, doIrq = False, width = 4,
      srcControl = DMA_INCREMENT, dstControl = DMA_INCREMENT, timing = DMA_TIMING_NOW,
      source = 0x02000000, dest = 0x03000000, count = 2,
      nextSource = 0x02000000, nextDest = 0x03000000, nextCount = 2, nextIRQ = 0\<rparr>"

definition dma_example_repeat :: dma_info where
  "dma_example_repeat =
     dma_example_info\<lparr>repeat := True, dstControl := DMA_INCREMENT_RELOAD,
       timing := DMA_TIMING_HBLANK\<rparr>"

section \<open>Save data as base64 (gba.js: encodeBase64, decodeBase64)\<close>

text \<open>
  \<open>btoa\<close> and \<open>atob\<close> are functions of the browser, not of the emulator; they are
  written out here after the standard of the platform.  A binary string (every code unit below 256)
  is the list of its code units; base64 text is a \<open>string\<close>.
\<close>

definition b64chars :: string where
  "b64chars = ''ABCDEFGHIJKLMNOPQRSTUVWXYZabcdefghijklmnopqrstuvwxyz0123456789+/''"

definition b64char :: "nat \<Rightarrow> char" where
  "b64char n = b64chars ! n"

fun btoa :: "byte list \<Rightarrow> string" where
  "btoa [] = []"
| "btoa [a] =
     [b64char (unat a div 4), b64char (unat a mod 4 * 16), CHR ''='', CHR ''='']"
| "btoa [a, b] =
     [b64char (unat a div 4), b64char (unat a mod 4 * 16 + unat b div 16),
      b64char (unat b mod 16 * 4), CHR ''='']"
| "btoa (a # b # c # rest) =
     [b64char (unat a div 4), b64char (unat a mod 4 * 16 + unat b div 16),
      b64char (unat b mod 16 * 4 + unat c div 64), b64char (unat c mod 64)] @ btoa rest"

definition is_b64 :: "char \<Rightarrow> bool" where
  "is_b64 c \<longleftrightarrow> c \<in> set b64chars"

definition b64val :: "char \<Rightarrow> nat" where
  "b64val c =
     (let n = of_char c :: nat in
      if 65 \<le> n \<and> n \<le> 90 then n - 65
      else if 97 \<le> n \<and> n \<le> 122 then n - 71
      else if 48 \<le> n \<and> n \<le> 57 then n + 4
      else if n = 43 then 62 else 63)"

fun atob_bytes :: "nat list \<Rightarrow> byte list" where
  "atob_bytes [] = []"
| "atob_bytes [a] = []"
| "atob_bytes [a, b] = [of_nat (a * 4 + b div 16)]"
| "atob_bytes [a, b, c] = [of_nat (a * 4 + b div 16), of_nat (b mod 16 * 16 + c div 4)]"
| "atob_bytes (a # b # c # d # rest) =
     [of_nat (a * 4 + b div 16), of_nat (b mod 16 * 16 + c div 4), of_nat (c mod 4 * 64 + d)]
     @ atob_bytes rest"

definition is_ascii_whitespace :: "char \<Rightarrow> bool" where
  "is_ascii_whitespace c \<longleftrightarrow> (of_char c :: nat) \<in> {9, 10, 12, 13, 32}"

definition strip_padding :: "string \<Rightarrow> string" where
  "strip_padding d =
     (if length d mod 4 = 0 then
        (if 2 \<le> length d \<and> drop (length d - 2) d = ''=='' then take (length d - 2) d
         else if 1 \<le> length d \<and> drop (length d - 1) d = ''='' then take (length d - 1) d
         else d)
      else d)"

definition atob :: "string \<Rightarrow> error + byte list" where
  "atob s =
     (let d = strip_padding (filter (\<lambda>c. \<not> is_ascii_whitespace c) s) in
      if length d mod 4 = 1 then Inl InvalidCharacterError
      else if \<not> list_all is_b64 d then Inl InvalidCharacterError
      else Inr (atob_bytes (map b64val d)))"

text \<open>
  \<open>encodeBase64(view)\<close>: the inner \<open>while\<close> loop takes triplets off the front of
  \<open>wordstring\<close>; the outer loop adds one byte at a time.
\<close>

function encode_drain :: "byte list \<Rightarrow> string list \<Rightarrow> byte list \<times> string list" where
  "encode_drain wordstring data =
     (if length wordstring \<ge> 3
      then encode_drain (drop 3 wordstring) (data @ [btoa (take 3 wordstring)])
      else (wordstring, data))"
  by pat_completeness auto
termination
  by (relation "measure (\<lambda>(wordstring, data). length wordstring)") auto

declare encode_drain.simps [simp del]

fun encode_loop :: "byte list \<Rightarrow> byte list \<Rightarrow> string list \<Rightarrow> byte list \<times> string list" where
  "encode_loop [] wordstring data = (wordstring, data)"
| "encode_loop (b # bs) wordstring data =
     (case encode_drain (wordstring @ [b]) data of
        (wordstring, data) \<Rightarrow> encode_loop bs wordstring data)"

definition encodeBase64 :: "byte list \<Rightarrow> string" where
  "encodeBase64 bytes =
     (case encode_loop bytes [] [] of
        (wordstring, data) \<Rightarrow>
          concat (if wordstring \<noteq> [] then data @ [btoa wordstring] else data))"

text \<open>
  \<open>string.match(/..../g)\<close>: the successive groups of four characters none of which is
  a line terminator; \<open>null\<close> when there is none.
\<close>

definition is_line_terminator :: "char \<Rightarrow> bool" where
  "is_line_terminator c \<longleftrightarrow> (of_char c :: nat) \<in> {10, 13}"

fun match4 :: "string \<Rightarrow> string list" where
  "match4 [] = []"
| "match4 [a] = []"
| "match4 [a, b] = []"
| "match4 [a, b, c] = []"
| "match4 (a # b # c # d # rest) =
     (if list_all (\<lambda>x. \<not> is_line_terminator x) [a, b, c, d]
      then [a, b, c, d] # match4 rest
      else match4 (b # c # d # rest))"

definition charCodeAt :: "byte list \<Rightarrow> nat \<Rightarrow> byte" where
  "charCodeAt s k = (if k < length s then s ! k else 0)"

text \<open>
  \<open>decodeBase64(string)\<close>.  \<open>length\<close> is \<open>string.length * 3 / 4\<close> less the padding, a
  number of quarters: it is kept multiplied by four in \<open>length4\<close>.  A write to the
  \<open>Uint8Array\<close> past its end is ignored.  \<open>bits.shift()\<close> on an empty array is
  \<open>undefined\<close>, which \<open>atob\<close> reads as the string \<open>undefined\<close>.
\<close>

function decode_loop ::
  "int \<Rightarrow> int \<Rightarrow> string list option \<Rightarrow> byte list \<Rightarrow> error + byte list" where
  "decode_loop length4 i bits arr =
     (if 4 * (i + 2) < length4 then
        (case bits of
           None \<Rightarrow> Inl TypeError
         | Some bs \<Rightarrow>
             (case atob (case bs of [] \<Rightarrow> ''undefined'' | b # _ \<Rightarrow> b) of
                Inl e \<Rightarrow> Inl e
              | Inr s \<Rightarrow>
                  decode_loop length4 (i + 3) (Some (tl bs))
                    (arr[nat i := charCodeAt s 0, nat i + 1 := charCodeAt s 1,
                          nat i + 2 := charCodeAt s 2])))
      else Inr arr)"
  by pat_completeness auto
termination
  by (relation "measure (\<lambda>(length4, i, bits, arr). nat (length4 - 4 * (i + 2)))") auto

declare decode_loop.simps [simp del]

text \<open>
  The loop variable \<open>i\<close> is declared with \<open>let\<close> in the head of the \<open>for\<close> loop.  The
  statement after the loop, \<open>if (i < length)\<close>, is outside its scope, and no other
  \<open>i\<close> is declared in the method, the class or globally: evaluating it throws a
  ReferenceError.
\<close>

definition decodeBase64 :: "string \<Rightarrow> error + byte list" where
  "decodeBase64 string =
     (let n = length string;
          length4 = 3 * int n;
          length4 = (if 2 \<le> n \<and> string ! (n - 2) = CHR ''='' then length4 - 8
                     else if 1 \<le> n \<and> string ! (n - 1) = CHR ''='' then length4 - 4
                     else length4);
          arr = replicate (nat (length4 div 4)) 0;
          bits = (if match4 string = [] then None else Some (match4 string))
      in case decode_loop length4 0 bits arr of
           Inl e \<Rightarrow> Inl e
         | Inr arr \<Rightarrow> Inl ReferenceError)"

section \<open>Properties of the loads\<close>


lemma rot_gen:
  fixes w :: "32 word"
  assumes "0 < k" "k < 32"
  shows "drop_bit k w OR push_bit (32 - k) w = word_rotr k w"
proof (rule bit_word_eqI)
  fix n assume "n < LENGTH(32)"
  then have n: "n < 32" by simp
  have L1: "bit (drop_bit k w) n = bit w (k + n)"
    by (simp add: bit_drop_bit_eq)
  have L2: "bit (push_bit (32 - k) w) n = (32 - k \<le> n \<and> bit w (n - (32 - k)))"
    using n by (simp add: bit_push_bit_iff)
  have R: "bit (word_rotr k w) n = bit w ((n + k) mod 32)"
    using n by (simp add: bit_word_rotr_iff)
  show "bit (drop_bit k w OR push_bit (32 - k) w) n = bit (word_rotr k w) n"
  proof (cases "n + k < 32")
    case True
    then have "(n + k) mod 32 = k + n" "\<not> 32 - k \<le> n" by auto
    then show ?thesis by (simp only: bit_or_iff L1 L2 R) simp
  next
    case False
    then have a: "(n + k) mod 32 = n - (32 - k)" "32 - k \<le> n" using assms n
      by (auto simp add: mod_if)
    have "\<not> bit w (k + n)"
      using False bit_imp_le_length[of w "k + n"] by auto
    then show ?thesis using a by (simp only: bit_or_iff L1 L2 R) simp
  qed
qed

lemma rot8: "drop_bit 8 w OR push_bit 24 w = word_rotr 8 (w::32 word)"
  using rot_gen[of 8 w] by simp
lemma rot16: "drop_bit 16 w OR push_bit 16 w = word_rotr 16 (w::32 word)"
  using rot_gen[of 16 w] by simp
lemma rot24: "drop_bit 24 w OR push_bit 8 w = word_rotr 24 (w::32 word)"
  using rot_gen[of 24 w] by simp
lemma rot0: "word_rotr 0 w = w"
  by (simp add: bit_eq_iff bit_word_rotr_iff bit_imp_le_length)

lemma low2_cases:
  fixes w :: "32 word"
  obtains "w AND 3 = 0" | "w AND 3 = 1" | "w AND 3 = 2" | "w AND 3 = 3"
proof -
  have "w AND 3 \<le> 3" by (rule word_and_le1)
  then have "unat (w AND 3) \<le> 3" by (simp add: word_le_nat_alt)
  then consider "unat (w AND 3) = 0" | "unat (w AND 3) = 1" | "unat (w AND 3) = 2" | "unat (w AND 3) = 3"
    by linarith
  then show thesis
  proof cases
    case 1 then show ?thesis using that(1) by (simp add: unat_eq_0)
  next
    case 2 then show ?thesis using that(2) by (metis unat_1 word_unat_eq_iff)
  next
    case 3 then have "unat (w AND 3) = unat (2 :: 32 word)" by simp
    then show ?thesis using that(3) by (simp only: word_unat_eq_iff)
  next
    case 4 then have "unat (w AND 3) = unat (3 :: 32 word)" by simp
    then show ?thesis using that(4) by (simp only: word_unat_eq_iff)
  qed
qed

lemma ToInt32_sint [simp]: "ToInt32 (sint w) = w"
  by (simp add: ToInt32_def)

lemma ToInt32_uint [simp]: "ToInt32 (uint w) = w"
  by (simp add: ToInt32_def)

lemma ToInt32_num [simp]: "ToInt32 0 = 0" "ToInt32 1 = 1" "ToInt32 (numeral n) = numeral n"
  "ToInt32 (- numeral n) = - numeral n"
  by (simp_all add: ToInt32_def)

lemma js_rotate:
  "js_or (js_shr mem (js_shl (js_and a 3) 3)) (js_shl mem (32 - js_shl (js_and a 3) 3))
   = rotate_right mem (nat (js_and a 3) * 8)"
proof (cases "ToInt32 a" rule: low2_cases)
  case 1 then show ?thesis
    by (simp add: js_or_def js_shr_def js_shl_def js_and_def rotate_right_def rot0)
next
  case 2 then show ?thesis
    by (simp add: js_or_def js_shr_def js_shl_def js_and_def rotate_right_def rot8)
next
  case 3 then show ?thesis
    by (simp add: js_or_def js_shr_def js_shl_def js_and_def rotate_right_def rot16)
next
  case 4 then show ?thesis
    by (simp add: js_or_def js_shr_def js_shl_def js_and_def rotate_right_def rot24)
qed

lemma c32: "(0xfffffffc::32 word) = - 4" "(0xfffffffe::32 word) = - 2" "(0xffffffff::32 word) = - 1"
  by simp_all

lemma and_not_absorb: "(a::32 word) AND b = 0 \<Longrightarrow> a AND NOT b = a"
  by (auto simp add: bit_eq_iff bit_simps)

lemma js_and_align_mask32:
  "js_and (js_and a (js_not 3)) (js_and m 0xfffffffc) = js_and a (js_and m 0xfffffffc)"
  by (simp add: js_and_def js_not_def ac_simps)

lemma js_and_align_low: "js_and (js_and a (js_not 3)) 3 = 0"
proof -
  have "(- 4 :: 32 word) AND 3 = 0" by simp
  then have "ToInt32 a AND (- 4 AND 3) = 0" by simp
  then show ?thesis by (simp add: js_and_def js_not_def and.assoc)
qed

lemma js_and_mask8: "js_and (js_and a m) (js_and m 0xffffffff) = js_and a (js_and m 0xffffffff)"
  by (simp add: js_and_def ac_simps)

lemma js_and_mask_idem: "js_and (js_and a m) m = js_and a m"
  by (simp add: js_and_def ac_simps)

lemma js_and_mask16_even:
  assumes "js_and a 1 = 0"
  shows "js_and (js_and a (js_and m 0xfffffffe)) m = js_and a m"
proof -
  have "ToInt32 (js_and a 1) = ToInt32 0" using assms by simp
  then have "ToInt32 a AND 1 = 0" by (simp add: js_and_def)
  then have "ToInt32 a AND NOT 1 = ToInt32 a" by (rule and_not_absorb)
  then have e: "ToInt32 a AND - 2 = ToInt32 a" by simp
  have "(ToInt32 a AND (ToInt32 m AND - 2)) AND ToInt32 m = (ToInt32 a AND - 2) AND ToInt32 m"
    by (simp add: ac_simps)
  then have "(ToInt32 a AND (ToInt32 m AND - 2)) AND ToInt32 m = ToInt32 a AND ToInt32 m"
    by (simp only: e)
  then show ?thesis by (simp add: js_and_def c32)
qed

lemma js_and_mask32_aligned:
  "js_and (js_and a (js_and m 0xfffffffc)) (js_and m 0xfffffffc) = js_and a (js_and m 0xfffffffc)"
  by (simp add: js_and_def ac_simps)

lemma js_rotate0: 
  "js_or (js_shr (sint (w::32 word)) (js_shl 0 3)) (js_shl (sint w) (32 - js_shl 0 3)) = sint w"
  by (simp add: js_or_def js_shr_def js_shl_def)

lemma getInt32_sint: "getInt32 v i le = Inr x \<Longrightarrow> \<exists>w::32 word. x = sint w"
  by (auto simp add: getInt32_def split: if_splits)

text \<open>
  Claim C1, as the code has it.  For a region whose \<open>load32\<close> is the one of
  \<open>MemoryView\<close> (a RAM block or a ROM view) and for every address \<open>a\<close>,
  \<open>load32(a)\<close> is the result of \<open>load32(a & ~3)\<close> rotated right by \<open>(a & 3) * 8\<close>
  bits; when the aligned read throws, so does the read at \<open>a\<close>.
\<close>

theorem load32_rotated:
  assumes "kind r \<noteq> BIOSView" and "masks_reset r"
  shows "load32 r a = rotated_result (load32 r (js_and a (js_not 3))) (nat (js_and a 3) * 8)"
proof -
  have m: "mask32 r = js_and (maskR r) 0xfffffffc" using assms(2) by (simp add: masks_reset_def)
  have k: "load32 r = MemoryView_load32 r" using assms(1)
    by (cases "kind r") (simp_all add: load32_def fun_eq_iff)
  show ?thesis
  proof (cases "getInt32 (view r) (js_and a (mask32 r)) True")
    case (Inl e)
    then show ?thesis
      by (simp add: k MemoryView_load32_def rotated_result_def m js_and_align_mask32 Let_def)
  next
    case (Inr x)
    then obtain w :: "32 word" where w: "x = sint w" using getInt32_sint by blast
    show ?thesis using Inr
      by (simp add: k MemoryView_load32_def rotated_result_def m js_and_align_mask32 
           js_and_align_low js_rotate Let_def w js_rotate0)
  qed
qed


lemmas js_defs = js_and_def js_or_def js_not_def js_shl_def js_shr_def js_sar_def
lemmas view_defs = in_view_def getInt8_def getUint8_def getInt16_def getUint16_def getInt32_def
  get16_def get32_def half_of_def word_of_def
lemmas load_defs = load8_def load16_def loadU8_def loadU16_def load32_def
  MemoryView_load8_def MemoryView_load16_def MemoryView_loadU8_def MemoryView_loadU16_def MemoryView_load32_def
  BIOSView_load8_def BIOSView_load16_def BIOSView_loadU8_def BIOSView_loadU16_def BIOSView_load32_def
lemmas new_defs = MemoryBlock_new_def MemoryView_new_def ROMView_new_def BIOSView_new_def resetMask_def

theorem load32_rotated_witness:
  "kind ram_example \<noteq> BIOSView \<and> masks_reset ram_example \<and>
   load32 ram_example 5 = Inr 0x55087766 \<and>
   rotated_result (load32 ram_example (js_and 5 (js_not 3))) (nat (js_and 5 3) * 8) = Inr 0x55087766"
proof -
  have k: "kind ram_example \<noteq> BIOSView" by (simp add: ram_example_def new_defs)
  have m: "masks_reset ram_example" by (simp add: ram_example_def new_defs masks_reset_def)
  have l: "load32 ram_example (js_and 5 (js_not 3)) = Inr 0x08776655"
    by (simp add: ram_example_def new_defs load_defs js_defs view_defs)
  have r: "rotate_right 0x08776655 8 = 0x55087766"
    by (simp add: rotate_right_def rot8[symmetric]) 
  show ?thesis using load32_rotated [OF k m, of 5] k m l r
    by (simp add: rotated_result_def js_and_def)
qed

text \<open>
  Claim C1 as stated quantifies over every region.  The BIOS view overrides \<open>load32\<close>
  and reads the four bytes at the offset itself: at offset 1 of an eight-byte BIOS it
  returns bytes 1 to 4, not the rotated aligned word.
\<close>

theorem load32_bios_counterexample:
  "case BIOSView_new [0x11, 0x22, 0x33, 0x44, 0x55, 0x66, 0x77, 0x08] 0 of
     Inl e \<Rightarrow> False
   | Inr r \<Rightarrow>
       load32 r 1 \<noteq> rotated_result (load32 r (js_and 1 (js_not 3))) (nat (js_and 1 3) * 8) \<and>
       load32 r 1 = Inr 0x55443322 \<and>
       rotated_result (load32 r (js_and 1 (js_not 3))) (nat (js_and 1 3) * 8) = Inr 0x11443322"
  by (simp add: new_defs load_defs js_defs view_defs rotated_result_def rotate_right_def rot8[symmetric])

lemma load_kind: 
  assumes "kind r \<noteq> BIOSView"
  shows "load8 r = MemoryView_load8 r" "load16 r = MemoryView_load16 r" "load32 r = MemoryView_load32 r"
    "loadU8 r = MemoryView_loadU8 r" "loadU16 r = MemoryView_loadU16 r"
  using assms by (cases "kind r"; simp add: load8_def load16_def load32_def loadU8_def loadU16_def fun_eq_iff)+

lemma js_and_low_of_mask32: "js_and (js_and a (js_and m 0xfffffffc)) 3 = 0"
proof -
  have "(- 4 :: 32 word) AND 3 = 0" by simp
  then have "ToInt32 a AND (ToInt32 m AND (- 4 AND 3)) = 0" by simp
  then show ?thesis by (simp add: js_and_def and.assoc c32)
qed

text \<open>
  Claim C7, as the code has it.  For a RAM block or a ROM view, \<open>load8\<close> absorbs the
  byte mask; \<open>load16\<close> also masks with the byte mask \<open>mask\<close> (unaligned halfword
  reads are performed as they are), so it absorbs \<open>mask16\<close> at even addresses only;
  \<open>load32\<close> rotates by the low two address bits, so it absorbs \<open>mask32\<close> at
  addresses that are multiples of four.
\<close>

theorem load_mask_absorbed:
  assumes "kind r \<noteq> BIOSView" and "masks_reset r"
  shows "load8 r a = load8 r (js_and a (maskR r)) \<and>
         load16 r a = load16 r (js_and a (maskR r)) \<and>
         (js_and a 1 = 0 \<longrightarrow> load16 r a = load16 r (js_and a (mask16 r))) \<and>
         (js_and a 3 = 0 \<longrightarrow> load32 r a = load32 r (js_and a (mask32 r)))"
proof -
  have m: "mask8 r = js_and (maskR r) 0xffffffff" "mask16 r = js_and (maskR r) 0xfffffffe"
    "mask32 r = js_and (maskR r) 0xfffffffc"
    using assms(2) by (simp_all add: masks_reset_def)
  have 1: "load8 r a = load8 r (js_and a (maskR r))"
    by (simp add: load_kind[OF assms(1)] MemoryView_load8_def m js_and_mask8)
  have 2: "load16 r a = load16 r (js_and a (maskR r))"
    by (simp add: load_kind[OF assms(1)] MemoryView_load16_def js_and_mask_idem)
  have 3: "load16 r a = load16 r (js_and a (mask16 r))" if "js_and a 1 = 0"
    using that by (simp add: load_kind[OF assms(1)] MemoryView_load16_def m js_and_mask16_even)
  have 4: "load32 r a = load32 r (js_and a (mask32 r))" if "js_and a 3 = 0"
    using that 
    by (simp add: load_kind[OF assms(1)] MemoryView_load32_def m js_and_mask32_aligned js_and_low_of_mask32)
  show ?thesis using 1 2 3 4 by blast
qed

theorem load_mask_absorbed_witness:
  "kind ram_example \<noteq> BIOSView \<and> masks_reset ram_example \<and> 
   load8 ram_example 13 = load8 ram_example (js_and 13 (maskR ram_example)) \<and>
   load16 ram_example 14 = load16 ram_example (js_and 14 (mask16 ram_example)) \<and>
   load32 ram_example 12 = load32 ram_example (js_and 12 (mask32 ram_example)) \<and>
   load8 ram_example 13 = Inr 0x66 \<and> load16 ram_example 14 = Inr 0x0877 \<and>
   load32 ram_example 12 = Inr 0x08776655"
proof -
  have k: "kind ram_example \<noteq> BIOSView" by (simp add: ram_example_def new_defs)
  have m: "masks_reset ram_example" by (simp add: ram_example_def new_defs masks_reset_def)
  have e: "js_and 14 1 = 0" "js_and 12 3 = 0" by (simp_all add: js_and_def)
  have v: "load8 ram_example 13 = Inr 0x66" "load16 ram_example 14 = Inr 0x0877"
     "load32 ram_example 12 = Inr 0x08776655"
    by (simp_all add: ram_example_def new_defs load_defs js_defs view_defs)
  have a: "load8 ram_example 13 = load8 ram_example (js_and 13 (maskR ram_example))"
    using load_mask_absorbed [OF k m, of 13] by blast
  have b: "load16 ram_example 14 = load16 ram_example (js_and 14 (mask16 ram_example))"
    using load_mask_absorbed [OF k m, of 14] e by blast
  have c: "load32 ram_example 12 = load32 ram_example (js_and 12 (mask32 ram_example))"
    using load_mask_absorbed [OF k m, of 12] e by blast
  show ?thesis using k m a b c v by blast
qed

text \<open>
  Claim C7 as stated fails at an odd address: \<open>load16(1)\<close> reads bytes 1 and 2, while
  \<open>load16(1 & mask16)\<close> reads bytes 0 and 1.  It fails for \<open>load32\<close> at an address that
  is not a multiple of four, where the word is rotated.
\<close>

theorem load16_mask16_counterexample:
  "load16 ram_example 1 \<noteq> load16 ram_example (js_and 1 (mask16 ram_example)) \<and>
   load16 ram_example 1 = Inr 0x3322 \<and>
   load16 ram_example (js_and 1 (mask16 ram_example)) = Inr 0x2211 \<and>
   load32 ram_example 1 \<noteq> load32 ram_example (js_and 1 (mask32 ram_example)) \<and>
   load32 ram_example 1 = Inr 0x11443322 \<and>
   load32 ram_example (js_and 1 (mask32 ram_example)) = Inr 0x44332211"
  by (simp add: ram_example_def new_defs load_defs js_defs view_defs)

text \<open>
  Claim C6, as the code has it.  Every load of the BIOS view answers an offset at or past
  the end of the buffer with the number \<open>-1\<close> instead of wrapping around; the unsigned
  loads \<open>loadU8\<close> and \<open>loadU16\<close> return the same \<open>-1\<close>, not \<open>0xFF\<close> and \<open>0xFFFF\<close>.
\<close>

theorem BIOSView_out_of_bounds:
  assumes "kind r = BIOSView" and "int (byteLength r) \<le> offset"
  shows "load8 r offset = Inr (- 1) \<and> load16 r offset = Inr (- 1) \<and> load32 r offset = Inr (- 1) \<and>
         loadU8 r offset = Inr (- 1) \<and> loadU16 r offset = Inr (- 1)"
  using assms by (simp add: load_defs)

theorem BIOSView_out_of_bounds_witness:
  "case BIOSView_new [0x11, 0x22, 0x33, 0x44] 0 of
     Inl e \<Rightarrow> False
   | Inr r \<Rightarrow>
       kind r = BIOSView \<and> int (byteLength r) \<le> 4 \<and>
       load8 r 4 = Inr (- 1) \<and> load16 r 4 = Inr (- 1) \<and> load32 r 4 = Inr (- 1) \<and>
       loadU8 r 4 = Inr (- 1) \<and> loadU16 r 4 = Inr (- 1) \<and>
       load8 r 3 = Inr 0x44"
proof -
  obtain r where r: "BIOSView_new [0x11, 0x22, 0x33, 0x44] 0 = Inr r"
    and k: "kind r = BIOSView" and l: "int (byteLength r) \<le> 4"
    and v: "load8 r 3 = Inr 0x44"
    by (simp add: new_defs load_defs js_defs view_defs)
  show ?thesis using BIOSView_out_of_bounds [OF k l] r k l v by simp
qed

text \<open>
  Claim C6 as stated: on a four-byte BIOS, \<open>loadU8(4)\<close> is not \<open>0xFF\<close> and
  \<open>loadU16(4)\<close> is not \<open>0xFFFF\<close>, while the unsigned loads inside the buffer are
  zero-extended.
\<close>

theorem BIOSView_unsigned_counterexample:
  "case BIOSView_new [0x11, 0x22, 0x33, 0xf4] 0 of
     Inl e \<Rightarrow> False
   | Inr r \<Rightarrow> loadU8 r 4 \<noteq> Inr 0xff \<and> loadU16 r 4 \<noteq> Inr 0xffff \<and>
       loadU8 r 4 = Inr (- 1) \<and> loadU16 r 4 = Inr (- 1) \<and>
       loadU8 r 3 = Inr 0xf4 \<and> loadU16 r 2 = Inr 0xf433"
  by (simp add: new_defs load_defs js_defs view_defs)

section \<open>Waitstates and cycle charges\<close>


lemma adjust_prefetch_sel:
  "waitstates (adjust_prefetch p s) = waitstates s"
  "waitstates32 (adjust_prefetch p s) = waitstates32 s"
  "waitstatesSeq (adjust_prefetch p s) = waitstatesSeq s"
  "waitstatesSeq32 (adjust_prefetch p s) = waitstatesSeq32 s"
  by (simp_all add: adjust_prefetch_def Let_def)

lemma adjust_prefetch_val:
  assumes "slot \<in> {8, 9, 10, 11, 12, 13}"
  shows "waitstatesPrefetch (adjust_prefetch p s) slot = (if p = 0 then waitstatesSeq s (2 * (slot div 2)) else 0)"
    "waitstatesPrefetch32 (adjust_prefetch p s) slot = (if p = 0 then waitstatesSeq32 s (2 * (slot div 2)) else 0)"
  using assms by (auto simp add: adjust_prefetch_def Let_def js_truthy_def)

lemma adjust_seq32_sel:
  "waitstates (adjust_seq32 s) = waitstates s"
  "waitstates32 (adjust_seq32 s) = waitstates32 s"
  "waitstatesSeq (adjust_seq32 s) = waitstatesSeq s"
  by (simp_all add: adjust_seq32_def)

lemma adjust_seq32_val:
  assumes "slot \<in> {8, 9, 10, 11, 12, 13}"
  shows "waitstatesSeq32 (adjust_seq32 s) slot = 2 * waitstatesSeq s (2 * (slot div 2)) + 1"
  using assms by (auto simp add: adjust_seq32_def)

lemma adjust_32_sel:
  "waitstates (adjust_32 s) = waitstates s"
  "waitstatesSeq (adjust_32 s) = waitstatesSeq s"
  by (simp_all add: adjust_32_def)

lemma adjust_32_val:
  assumes "slot \<in> {8, 9, 10, 11, 12, 13}"
  shows "waitstates32 (adjust_32 s) slot = waitstates s (2 * (slot div 2)) + 1 + waitstatesSeq s (2 * (slot div 2))"
  using assms by (auto simp add: adjust_32_def)

lemma adjust_seq_sel:
  "waitstates (adjust_seq a b c s) = waitstates s"
  by (simp_all add: adjust_seq_def)

lemma adjust_seq_pair:
  assumes "slot \<in> {8, 9, 10, 11, 12, 13}"
  shows "waitstatesSeq (adjust_seq a b c s) (2 * (slot div 2)) = waitstatesSeq (adjust_seq a b c s) slot"
  using assms by (auto simp add: adjust_seq_def)

lemma adjust_nonseq_pair:
  assumes "slot \<in> {8, 9, 10, 11, 12, 13}"
  shows "waitstates (adjust_nonseq a b c s) (2 * (slot div 2)) = waitstates (adjust_nonseq a b c s) slot"
  using assms by (auto simp add: adjust_nonseq_def)

lemma base_in: "slot \<in> {8, 9, 10, 11, 12, 13} \<Longrightarrow> 2 * (slot div 2) \<in> {8, 9, 10, 11, 12, 13::nat}"
  by auto

text \<open>
  Claim C5.  After \<open>adjustTimings(word)\<close>, on each of the six cartridge-window slots
  (8 to 13): \<open>waitstates32 = waitstates + 1 + waitstatesSeq\<close> and
  \<open>waitstatesSeq32 = 2 * waitstatesSeq + 1\<close>; with bit 14 of \<open>word\<close> clear the two
  prefetch arrays equal the sequential ones, with bit 14 set they are 0.
\<close>

theorem adjustTimings_cart_windows:
  assumes "slot \<in> {8, 9, 10, 11, 12, 13}" and "s' = adjustTimings word s"
  shows "waitstates32 s' slot = waitstates s' slot + 1 + waitstatesSeq s' slot \<and>
         waitstatesSeq32 s' slot = 2 * waitstatesSeq s' slot + 1 \<and>
         (js_and word 0x4000 = 0 \<longrightarrow>
            waitstatesPrefetch s' slot = waitstatesSeq s' slot \<and>
            waitstatesPrefetch32 s' slot = waitstatesSeq32 s' slot) \<and>
         (js_and word 0x4000 \<noteq> 0 \<longrightarrow>
            waitstatesPrefetch s' slot = 0 \<and> waitstatesPrefetch32 s' slot = 0)"
proof -
  note b = base_in[OF assms(1)]
  have bb: "2 * (2 * (slot div 2) div 2) = 2 * (slot div 2)" by simp
  show ?thesis
  unfolding assms(2) adjustTimings_def Let_def
  by (simp add: adjust_prefetch_sel adjust_prefetch_val[OF assms(1)] adjust_seq32_sel 
      adjust_seq32_val[OF assms(1)] adjust_seq32_val[OF b] adjust_32_sel adjust_32_val[OF assms(1)] adjust_seq_sel
      adjust_seq_pair[OF assms(1)] adjust_nonseq_pair[OF assms(1)] bb)
qed

theorem adjustTimings_cart_windows_witness:
  "(8::nat) \<in> {8, 9, 10, 11, 12, 13} \<and>
   waitstates (adjustTimings 0x4014 (GameBoyAdvanceMMU_new :: unit mmu)) 8 = 3 \<and>
   waitstatesSeq (adjustTimings 0x4014 (GameBoyAdvanceMMU_new :: unit mmu)) 8 = 1 \<and>
   waitstates32 (adjustTimings 0x4014 (GameBoyAdvanceMMU_new :: unit mmu)) 8 = 5 \<and>
   waitstatesSeq32 (adjustTimings 0x4014 (GameBoyAdvanceMMU_new :: unit mmu)) 8 = 3 \<and>
   waitstatesPrefetch (adjustTimings 0x4014 (GameBoyAdvanceMMU_new :: unit mmu)) 8 = 0 \<and>
   waitstatesPrefetch32 (adjustTimings 0x4014 (GameBoyAdvanceMMU_new :: unit mmu)) 8 = 0 \<and>
   waitstatesPrefetch (adjustTimings 0x0014 (GameBoyAdvanceMMU_new :: unit mmu)) 8 = 1 \<and>
   waitstatesPrefetch32 (adjustTimings 0x0014 (GameBoyAdvanceMMU_new :: unit mmu)) 8 = 3"
proof -
  have a: "waitstates (adjustTimings 0x4014 (GameBoyAdvanceMMU_new :: unit mmu)) 8 = 3"
          "waitstatesSeq (adjustTimings 0x4014 (GameBoyAdvanceMMU_new :: unit mmu)) 8 = 1"
          "waitstatesSeq (adjustTimings 0x0014 (GameBoyAdvanceMMU_new :: unit mmu)) 8 = 1"
    unfolding adjustTimings_def Let_def
    by (simp_all add: adjust_prefetch_sel adjust_seq32_sel adjust_32_sel adjust_seq_sel)
      (simp_all add: adjust_seq_def adjust_nonseq_def js_defs ROM_WS_def ROM_WS_SEQ_def)
  have p: "js_and 0x4014 0x4000 \<noteq> 0" "js_and 0x0014 0x4000 = 0" by (simp_all add: js_defs)
  have s: "(8::nat) \<in> {8, 9, 10, 11, 12, 13}" by simp
  show ?thesis
    using adjustTimings_cart_windows [OF s refl, of "0x4014" "GameBoyAdvanceMMU_new :: unit mmu"]
      adjustTimings_cart_windows [OF s refl, of "0x0014" "GameBoyAdvanceMMU_new :: unit mmu"] a p
    by simp
qed

lemma waitMul_odd: "js_and rs 1 \<noteq> 0 \<Longrightarrow> cycles (waitMul rs s) = cycles s + 1"
  by (simp add: waitMul_def js_truthy_def)

text \<open>
  Claim C8 charges by the most significant non-zero byte.  The first test of \<open>waitMul\<close>
  is \<open>rs & true\<close>, so every odd multiplier is charged one cycle: \<open>0x101\<close>, whose
  byte 1 is not zero and whose bytes 2 and 3 are, costs 1 cycle where the claim says 2.
\<close>

theorem waitMul_odd_multiplier:
  "cycles (waitMul 0x101 s) = cycles s + 1 \<and> js_and 0x101 0xffffff00 \<noteq> 0 \<and> js_and 0x101 0xffff0000 = 0"
  by (simp add: waitMul_def js_truthy_def js_defs)

text \<open>On even multipliers the charge is the one the claim describes.\<close>

lemma waitMul_even:
  assumes "js_and rs 1 = 0"
  shows "cycles (waitMul rs s) = cycles s +
    (if js_and rs 0xffffff00 = 0 then 1 else if js_and rs 0xffff0000 = 0 then 2
     else if js_and rs 0xff000000 = 0 then 3 else 4)"
  using assms by (simp add: waitMul_def js_truthy_def)

section \<open>Base64\<close>

text \<open>Whatever the loop does, the statement after it throws: the decoder never returns.\<close>

lemma decodeBase64_never_returns: "decodeBase64 s \<noteq> Inr b"
  by (simp add: decodeBase64_def Let_def split: sum.splits)

text \<open>
  Claim C9 asks \<open>decodeBase64(encodeBase64(b)) = b\<close>.  The two bytes \<open>Hi\<close> are encoded
  as \<open>SGk=\<close>, and decoding that text throws a ReferenceError, as decoding the empty
  text does.
\<close>

theorem decodeBase64_throws:
  "encodeBase64 [0x48, 0x69] = ''SGk='' \<and> decodeBase64 ''SGk='' = Inl ReferenceError \<and>
   encodeBase64 [] = [] \<and> decodeBase64 [] = Inl ReferenceError"
  by code_simp

section \<open>Loading a cartridge\<close>


lemma uint_not_0x96: "(b::byte) \<noteq> 0x96 \<Longrightarrow> uint b \<noteq> 0x96"
proof
  assume a: "b \<noteq> 0x96" and "uint b = 0x96"
  then have "word_of_int (uint b) = (word_of_int 0x96 :: byte)" by simp
  then have "b = 0x96" by simp
  with a show False by simp
qed

lemma ROMView_new_0: "\<exists>lo. ROMView_new rom 0 = Inr lo \<and> view lo = rom"
  by (simp add: ROMView_new_def MemoryView_new_def resetMask_def)

text \<open>
  Claim C4.  When the byte at offset \<open>0xB2\<close> of the image is not \<open>0x96\<close>, \<open>loadRom\<close>
  returns \<open>undefined\<close> and the state of the MMU is the one it was called in: the
  \<open>cart\<close> and \<open>save\<close> fields and every slot of \<open>memory\<close> are unchanged.
\<close>

theorem loadRom_rejects_bad_header:
  assumes "0xb2 < length rom" and "rom ! 0xb2 \<noteq> 0x96"
  shows "loadRom rom process s = Inr (None, s)"
proof -
  obtain lo where lo: "ROMView_new rom 0 = Inr lo" "view lo = rom"
    using ROMView_new_0 by blast
  have g: "getUint8 rom 0xb2 = Inr (uint (rom ! 0xb2))"
    using assms(1) by (simp add: getUint8_def in_view_def)
  show ?thesis
    unfolding loadRom_def by (simp add: lo g uint_not_0x96[OF assms(2)])
qed

theorem loadRom_rejects_bad_header_witness:
  "0xb2 < length rom_zero \<and> rom_zero ! 0xb2 \<noteq> 0x96 \<and>
   loadRom rom_zero True (clear GameBoyAdvanceMMU_new :: unit mmu) = Inr (None, clear GameBoyAdvanceMMU_new) \<and>
   cart (clear GameBoyAdvanceMMU_new :: unit mmu) = None \<and>
   save (clear GameBoyAdvanceMMU_new :: unit mmu) = None"
proof -
  have a: "0xb2 < length rom_zero" "rom_zero ! 0xb2 \<noteq> 0x96" by (simp_all add: rom_zero_def)
  have c: "cart (clear GameBoyAdvanceMMU_new :: unit mmu) = None" "save (clear GameBoyAdvanceMMU_new :: unit mmu) = None"
    by (simp_all add: clear_def Let_def)
  show ?thesis using loadRom_rejects_bad_header [OF a, of True "clear GameBoyAdvanceMMU_new :: unit mmu"] a c
    by blast
qed

section \<open>The instruction cache\<close>


lemma mmu_store8_block:
  assumes "memory s = Some m" and "region_of a < length m" and "m ! region_of a = Mem r"
    and "kind r = MemoryBlock" and "js_and (js_and a 0xffffff) (mask8 r) = j" and "0 \<le> j" and "nat j < length (view r)"
  shows "mmu_store8 env a v s =
     Inr (s\<lparr>memory := Some (m[region_of a := Mem (MemoryBlock_invalidatePage
            (r\<lparr>view := (view r)[nat j := byte_of v 0]\<rparr>) (js_and a 0xffffff))])\<rparr>)"
  using assms
  by (simp add: mmu_store8_def Let_def slot_at_def slot_set_def slot_store_def region_store_def
      store8_def MemoryView_store8_def setInt8_def in_view_def slot_invalidatePage_def invalidatePage_def)

lemma accessPage_fresh:
  assumes "memory s = Some m" and "i < length m" and "m ! i = Mem r" and "icache r p = None"
    and "new_page r = Inr pg"
  shows "accessPage i p s = Inr (pg, s\<lparr>memory := Some (m[i := Mem (r\<lparr>icache := (icache r)(p \<mapsto> pg)\<rparr>)])\<rparr>)"
  using assms by (simp add: accessPage_def slot_at_def slot_set_def)

text \<open>
  Claim C2 asks that after a store inside an allocated page the page is invalid.  On the
  reset machine, with page 0 of working RAM (addresses 0 to 511) allocated, the store at
  \<open>0x02000200\<close> leaves \<open>ICACHE_PAGE_BITS\<close> at 4; the store at \<open>0x02000010\<close> then
  looks for its page at index 1.  The byte at offset \<open>0x10\<close> is written, and page 0,
  which covers it, is still valid.
\<close>

theorem stale_page_after_store:
  "case icache_run env of
     Inl e \<Rightarrow> False
   | Inr s \<Rightarrow>
       (case memory s of
          None \<Rightarrow> False
        | Some m \<Rightarrow>
            (case slot_at m REGION_WORKING_RAM of
               Mem r \<Rightarrow>
                 (case icache r 0 of
                    None \<Rightarrow> False
                  | Some p \<Rightarrow> page_covers 0 p 0x10 \<and> \<not> invalid p \<and> 
                      loadU8 r 0x10 = Inr 0xcd \<and> ICACHE_PAGE_BITS r = 4)
             | _ \<Rightarrow> False))"
proof -
  define r0 where "r0 = MemoryBlock_new SIZE_WORKING_RAM 9"
  define s0 :: "'a mmu" where "s0 = clear GameBoyAdvanceMMU_new"
  define m0 :: "'a slot list" where "m0 = [slot_of_bios None, BadMemory, Mem r0, Mem (MemoryBlock_new SIZE_WORKING_IRAM 7),
      Null, Null, Null, Null,
      BadMemory, BadMemory, BadMemory, BadMemory, BadMemory, BadMemory, BadMemory, BadMemory]
     @ replicate 240 BadMemory"
  define pg where "pg = \<lparr>thumb = 512, arm = 256, invalid = False\<rparr>"
  define r1 where "r1 = r0\<lparr>icache := (icache r0)(0 \<mapsto> pg)\<rparr>"
  define r2 where "r2 = MemoryBlock_invalidatePage (r1\<lparr>view := (view r1)[nat 0x200 := byte_of 0xab 0]\<rparr>) 0x200"
  define r3 where "r3 = MemoryBlock_invalidatePage (r2\<lparr>view := (view r2)[nat 0x10 := byte_of 0xcd 0]\<rparr>) 0x10"
  have r0: "kind r0 = MemoryBlock" "mask8 r0 = 0x3ffff" "maskR r0 = 0x3ffff" "ICACHE_PAGE_BITS r0 = 9"
    "length (view r0) = 0x40000" "icache r0 = Map.empty"
    by (simp_all add: r0_def MemoryBlock_new_def resetMask_def js_defs)
  have m0: "memory s0 = Some m0"
    by (simp add: s0_def m0_def r0_def clear_def Let_def GameBoyAdvanceMMU_new_def setWaitStates_def)
  have l0: "length m0 = 256" "m0 ! 2 = Mem r0" by (simp_all add: m0_def)
  have np: "new_page r0 = Inr pg" by (simp add: new_page_def r0 pg_def js_defs)
  have a1: "accessPage 2 0 s0 = Inr (pg, s0\<lparr>memory := Some (m0[2 := Mem r1])\<rparr>)"
    using accessPage_fresh[OF m0, of 2 r0 0 pg] l0 np r0 by (simp add: r1_def)
  have r1: "kind r1 = MemoryBlock" "mask8 r1 = 0x3ffff" "maskR r1 = 0x3ffff" "ICACHE_PAGE_BITS r1 = 9"
    "length (view r1) = 0x40000" "icache r1 = [0 \<mapsto> pg]"
    by (simp_all add: r1_def r0)
  have g1: "region_of 0x02000200 = 2" "js_and 0x02000200 0xffffff = 0x200" "js_and 0x200 0x3ffff = 0x200"
     "region_of 0x02000010 = 2" "js_and 0x02000010 0xffffff = 0x10" "js_and 0x10 0x3ffff = 0x10"
    by (simp_all add: region_of_def js_defs)
  have a2: "mmu_store8 env 0x02000200 0xab (s0\<lparr>memory := Some (m0[2 := Mem r1])\<rparr>)
      = Inr (s0\<lparr>memory := Some (m0[2 := Mem r2])\<rparr>)"
    using mmu_store8_block[of "s0\<lparr>memory := Some (m0[2 := Mem r1])\<rparr>" "m0[2 := Mem r1]" "0x02000200" r1 "0x200" env "0xab"]
    by (simp add: g1 l0 r1 r2_def)
  have r2: "kind r2 = MemoryBlock" "mask8 r2 = 0x3ffff" "maskR r2 = 0x3ffff" "ICACHE_PAGE_BITS r2 = 4"
    "length (view r2) = 0x40000" "icache r2 = [0 \<mapsto> pg]"
    by (simp_all add: r2_def MemoryBlock_invalidatePage_def Let_def r1 js_defs)
  have a3: "mmu_store8 env 0x02000010 0xcd (s0\<lparr>memory := Some (m0[2 := Mem r2])\<rparr>)
      = Inr (s0\<lparr>memory := Some (m0[2 := Mem r3])\<rparr>)"
    using mmu_store8_block[of "s0\<lparr>memory := Some (m0[2 := Mem r2])\<rparr>" "m0[2 := Mem r2]" "0x02000010" r2 "0x10" env "0xcd"]
    by (simp add: g1 l0 r2 r3_def)
  have r3: "kind r3 = MemoryBlock" "mask8 r3 = 0x3ffff" "ICACHE_PAGE_BITS r3 = 4"
    "length (view r3) = 0x40000" "icache r3 = [0 \<mapsto> pg]" "view r3 ! 16 = 0xcd"
    by (simp_all add: r3_def MemoryBlock_invalidatePage_def Let_def r2 js_defs byte_of_def)
  have run: "icache_run env = Inr (s0\<lparr>memory := Some (m0[2 := Mem r3])\<rparr>)"
    by (simp add: icache_run_def a1[unfolded s0_def] a2[unfolded s0_def] a3[unfolded s0_def] s0_def)
  have ld: "loadU8 r3 0x10 = Inr 0xcd"
    by (simp add: loadU8_def MemoryView_loadU8_def getUint8_def in_view_def r3 g1)
  show ?thesis
    by (simp add: run slot_at_def l0 r3 pg_def page_covers_def ld)
qed

section \<open>The DMA engine\<close>


lemma dma_irq_fields [simp]:
  "enable (dma_irq sr dr s info) = enable info"
  "repeat (dma_irq sr dr s info) = repeat info"
  "count (dma_irq sr dr s info) = count info"
  "dest (dma_irq sr dr s info) = dest info"
  "dstControl (dma_irq sr dr s info) = dstControl info"
  "timing (dma_irq sr dr s info) = timing info"
  by (simp_all add: dma_irq_def Let_def)

lemma slot_at_slot_set: "slot_at (slot_set m i x) i = x"
  by (simp add: slot_at_def slot_set_def nth_append)

lemma bit15: "\<not> bit ((r :: 16 word) AND 0x7fe0) 15"
  by (simp add: bit_and_iff)

lemma clear_enable_bit_result:
  assumes "clear_enable_bit dma m = Inr m'"
  shows "\<exists>regs x. slot_at m' REGION_IO = IO regs x \<and> \<not> enable_bit_set regs dma"
proof (cases "slot_at m REGION_IO")
  case (IO registers x)
  then show ?thesis using assms
    by (auto simp add: clear_enable_bit_def slot_at_slot_set bit15 enable_bit_set_def)
qed (insert assms, simp_all add: clear_enable_bit_def)

lemma bookkeeping_norepeat:
  assumes "dma_bookkeeping dma info s sr dr m src dst n = Inr (info', s', again)" and "\<not> repeat info"
  shows "\<not> again \<and> \<not> enable info' \<and>
     (\<exists>m' regs x. memory s' = Some m' \<and> slot_at m' REGION_IO = IO regs x \<and>
           \<not> enable_bit_set regs dma)"
proof (cases "clear_enable_bit dma m")
  case (Inl e)
  then show ?thesis using assms by (simp add: dma_bookkeeping_def Let_def)
next
  case (Inr m')
  from clear_enable_bit_result[OF Inr] Inr assms show ?thesis
    by (auto simp add: dma_bookkeeping_def Let_def)
qed

lemma bookkeeping_repeat:
  assumes "dma_bookkeeping dma info s sr dr m src dst n = Inr (info', s', again)" and "repeat info"
  shows "again \<and> enable info' = enable info \<and> repeat info' \<and> count info' = count info \<and>
     dest info' = dest info \<and> dstControl info' = dstControl info \<and> timing info' = timing info \<and>
     nextCount info' = count info \<and>
     (dstControl info = DMA_INCREMENT_RELOAD \<longrightarrow> nextDest info' = dest info)"
  using assms
  by (cases "dstControl info = DMA_INCREMENT_RELOAD") (auto simp add: dma_bookkeeping_def Let_def)

lemma body_bookkeeping:
  assumes "serviceDma_body env dma info s = Some (Inr r)"
  shows "\<exists>sr dr m src dst n. dma_bookkeeping dma info s sr dr m src dst n = Inr r"
  using assms
  by (simp add: serviceDma_body_def Let_def split: option.splits sum.splits prod.splits) blast

lemma schedule_service_reload:
  fixes env :: "'x env"
  assumes fifo: "\<forall>d i i'. scheduleFIFODma env d i = Inr i' \<longrightarrow>
                   nextCount i' = nextCount i \<and> nextDest i' = nextDest i"
  shows "(\<forall>info s info' s'. enable info \<longrightarrow> repeat info \<longrightarrow>
            serviceDma k env dma info s = Some (Inr (info', s')) \<longrightarrow>
            nextCount info' = count info \<and>
            (dstControl info = DMA_INCREMENT_RELOAD \<longrightarrow> nextDest info' = dest info)) \<and>
         (\<forall>info (s :: 'x mmu) info' s'. enable info \<longrightarrow> repeat info \<longrightarrow> nextCount info = count info \<longrightarrow>
            (dstControl info = DMA_INCREMENT_RELOAD \<longrightarrow> nextDest info = dest info) \<longrightarrow>
            scheduleDma k env dma info s = Some (Inr (info', s')) \<longrightarrow>
            nextCount info' = count info \<and>
            (dstControl info = DMA_INCREMENT_RELOAD \<longrightarrow> nextDest info' = dest info))"
proof (induction k)
  case 0
  show ?case by simp
next
  case (Suc k)
  have sched: "nextCount info' = count info \<and>
            (dstControl info = DMA_INCREMENT_RELOAD \<longrightarrow> nextDest info' = dest info)"
    if a: "enable info" "repeat info" "nextCount info = count info"
          "dstControl info = DMA_INCREMENT_RELOAD \<longrightarrow> nextDest info = dest info"
          "scheduleDma (Suc k) env dma info s = Some (Inr (info', s'))"
    for info and s :: "'x mmu" and info' s'
  proof (cases "timing info")
    case DMA_TIMING_NOW
    then have "serviceDma k env dma info s = Some (Inr (info', s'))" using a(5) by simp
    then show ?thesis using Suc a by blast
  next
    case DMA_TIMING_VBLANK
    then show ?thesis using a by simp
  next
    case DMA_TIMING_HBLANK
    then show ?thesis using a by simp
  next
    case DMA_TIMING_CUSTOM
    then show ?thesis using a fifo
      by (auto split: if_splits sum.splits)
  qed
  have serv: "nextCount info' = count info \<and>
            (dstControl info = DMA_INCREMENT_RELOAD \<longrightarrow> nextDest info' = dest info)"
    if a: "enable info" "repeat info" "serviceDma (Suc k) env dma info s = Some (Inr (info', s'))"
    for info and s :: "'x mmu" and info' s'
  proof -
    from a obtain i1 s1 again where b: "serviceDma_body env dma info s = Some (Inr (i1, s1, again))"
      and c: "(if again then scheduleDma k env dma i1 s1 else Some (Inr (i1, s1))) = Some (Inr (info', s'))"
      by (auto split: option.splits sum.splits prod.splits)
    from body_bookkeeping[OF b] obtain sr dr m src dst n where
      "dma_bookkeeping dma info s sr dr m src dst n = Inr (i1, s1, again)" by blast
    from bookkeeping_repeat[OF this a(2)] a(1) have d: "again" "enable i1" "repeat i1" "count i1 = count info"
      "dest i1 = dest info" "dstControl i1 = dstControl info" "nextCount i1 = count info"
      "dstControl info = DMA_INCREMENT_RELOAD \<longrightarrow> nextDest i1 = dest info"
      by simp_all
    from c d(1) have "scheduleDma k env dma i1 s1 = Some (Inr (info', s'))" by simp
    with Suc d show ?thesis by metis
  qed
  show ?case using sched serv by blast
qed



lemma byte_of_word_of:
  "byte_of (sint (word_of b0 b1 b2 b3)) 0 = b0"
  "byte_of (sint (word_of b0 b1 b2 b3)) 1 = b1"
  "byte_of (sint (word_of b0 b1 b2 b3)) 2 = b2"
  "byte_of (sint (word_of b0 b1 b2 b3)) 3 = b3"
  "byte_of (sint (word_of b0 b1 b2 b3)) (Suc 0) = b1"
  unfolding byte_of_def ToInt32_sint word_of_def
  by (auto simp add: bit_eq_iff bit_simps dest: bit_imp_le_length)

lemma copy32_endian:
  "(case getInt32 v i False of Inl e \<Rightarrow> Inl e | Inr w \<Rightarrow> setInt32 v' j w False) =
   (case getInt32 v i True of Inl e \<Rightarrow> Inl e | Inr w \<Rightarrow> setInt32 v' j w True)"
  by (simp add: getInt32_def setInt32_def get32_def byte_of_word_of)

lemma js_and_aligned_mask:
  assumes "js_and a 3 = 0"
  shows "js_and a (js_and m 0xfffffffc) = js_and a m"
proof -
  have "ToInt32 (js_and a 3) = ToInt32 0" using assms by simp
  then have "ToInt32 a AND 3 = 0" by (simp add: js_and_def)
  then have "ToInt32 a AND NOT 3 = ToInt32 a" by (rule and_not_absorb)
  then have e: "ToInt32 a AND - 4 = ToInt32 a" by simp
  have "ToInt32 a AND (ToInt32 m AND - 4) = (ToInt32 a AND - 4) AND ToInt32 m"
    by (simp add: ac_simps)
  then have "ToInt32 a AND (ToInt32 m AND - 4) = ToInt32 a AND ToInt32 m"
    by (simp only: e)
  then show ?thesis by (simp add: js_and_def c32)
qed

lemma js_and3_iff: "js_and a 3 = 0 \<longleftrightarrow> a mod 4 = 0"
proof -
  have m: "(3 :: 32 word) = mask 2" by (simp add: mask_eq_exp_minus_1)
  have t: "0 \<le> take_bit 2 a" "take_bit 2 a < 4"
    using take_bit_int_less_exp[of 2 a] by simp_all
  have "ToInt32 a AND 3 = word_of_int (take_bit 2 a)"
    unfolding ToInt32_def m by (simp add: and_mask_wi')
  then have "js_and a 3 = sint (word_of_int (take_bit 2 a) :: 32 word)"
    by (simp add: js_and_def)
  also have "\<dots> = take_bit 2 a"
    using t by (simp add: int_word_sint)
  finally show ?thesis by (simp add: take_bit_eq_mod)
qed

lemma aligned_step:
  assumes "js_and a 3 = 0"
  shows "js_and (a + k * 4) 3 = 0"
  using assms unfolding js_and3_iff by simp

lemma dma_okE:
  assumes "dma_ok m sr dr"
  obtains rs rd where "slot_at m sr = Mem rs" "kind rs \<noteq> BIOSView" "masks_reset rs"
    "slot_at m dr = Mem rd" "kind rd = MemoryBlock" "masks_reset rd"
  using assms by (auto simp add: dma_ok_def split: slot.splits)

lemma slot_at_slot_set_other: "i \<noteq> j \<Longrightarrow> slot_at m j \<noteq> Null \<Longrightarrow> slot_at (slot_set m i x) j = slot_at m j"
  by (auto simp add: slot_at_def slot_set_def nth_append split: if_splits)

lemma step_vv32_vs32:
  fixes m :: "'x slot list"
  assumes "dma_ok m sr dr" and "js_and dst 3 = 0"
  shows "step_vv32 sr dr src dst m = step_vs32 env sr dr src dst m"
proof -
  from assms(1) obtain rs rd where r: "slot_at m sr = Mem rs" "kind rs \<noteq> BIOSView" "masks_reset rs"
    "slot_at m dr = Mem rd" "kind rd = MemoryBlock" "masks_reset rd" by (rule dma_okE)
  have m: "js_and dst (mask32 rd) = js_and dst (maskR rd)"
    using r(6) js_and_aligned_mask[OF assms(2)] by (simp add: masks_reset_def)
  define F :: "error + byte list \<Rightarrow> error + 'x slot list"
    where "F = (\<lambda>res. case res of Inl e \<Rightarrow> Inl e
                        | Inr bytes \<Rightarrow> Inr (slot_set m dr (Mem (rd\<lparr>view := bytes\<rparr>))))"
  have A: "step_vv32 sr dr src dst m =
             F (case getInt32 (view rs) (js_and src (maskR rs)) False of Inl e \<Rightarrow> Inl e
                | Inr w \<Rightarrow> setInt32 (view rd) (js_and dst (maskR rd)) w False)"
    by (simp add: F_def step_vv32_def r split: sum.splits)
  have B: "step_vs32 env sr dr src dst m =
             F (case getInt32 (view rs) (js_and src (maskR rs)) True of Inl e \<Rightarrow> Inl e
                | Inr w \<Rightarrow> setInt32 (view rd) (js_and dst (maskR rd)) w True)"
    by (simp add: F_def step_vs32_def r store_to_def slot_store_def region_store_def
        store32_def MemoryView_store32_def m split: sum.splits)
  show ?thesis by (simp only: A B copy32_endian)
qed

lemma step_vs32_ls32:
  assumes "dma_ok m sr dr" and "js_and src 3 = 0"
  shows "step_vs32 env sr dr src dst m = step_ls32 env sr dr src dst m"
proof -
  from assms(1) obtain rs rd where r: "slot_at m sr = Mem rs" "kind rs \<noteq> BIOSView" "masks_reset rs"
    "slot_at m dr = Mem rd" "kind rd = MemoryBlock" "masks_reset rd" by (rule dma_okE)
  have m: "js_and src (mask32 rs) = js_and src (maskR rs)"
    using r(3) js_and_aligned_mask[OF assms(2)] by (simp add: masks_reset_def)
  have l: "load32 rs src = getInt32 (view rs) (js_and src (maskR rs)) True"
  proof (cases "getInt32 (view rs) (js_and src (maskR rs)) True")
    case (Inl e)
    then show ?thesis by (simp add: load_kind[OF r(2)] MemoryView_load32_def m Let_def)
  next
    case (Inr x)
    then obtain w :: "32 word" where w: "x = sint w" using getInt32_sint by blast
    show ?thesis using Inr
      by (simp add: load_kind[OF r(2)] MemoryView_load32_def m Let_def assms(2) w js_rotate0)
  qed
  show ?thesis
    by (simp add: step_vs32_def step_ls32_def r slot_load_def region_load_def l)
qed

lemma step_vv32_ok:
  assumes "dma_ok m sr dr" and "step_vv32 sr dr src dst m = Inr m'"
  shows "dma_ok m' sr dr"
proof -
  from assms(1) obtain rs rd where r: "slot_at m sr = Mem rs" "kind rs \<noteq> BIOSView" "masks_reset rs"
    "slot_at m dr = Mem rd" "kind rd = MemoryBlock" "masks_reset rd" by (rule dma_okE)
  from assms(2) obtain bytes where m': "m' = slot_set m dr (Mem (rd\<lparr>view := bytes\<rparr>))"
    by (auto simp add: step_vv32_def r split: sum.splits)
  show ?thesis
  proof (cases "sr = dr")
    case True
    then show ?thesis using r by (simp add: dma_ok_def m' slot_at_slot_set masks_reset_def)
  next
    case False
    then have "slot_at m' sr = Mem rs" using r(1) by (simp add: m' slot_at_slot_set_other)
    then show ?thesis using r by (simp add: dma_ok_def m' slot_at_slot_set masks_reset_def)
  qed
qed

lemma dma_loop_0: "dma_loop step so do 0 src dst m = Some (Inr (m, src, dst, - 1))"
  by (subst dma_loop.simps) simp

lemma dma_loop_Suc:
  "dma_loop step so do (int (Suc n)) src dst m =
     (case step src dst m of Inl e \<Rightarrow> Some (Inl e)
      | Inr m' \<Rightarrow> dma_loop step so do (int n) (src + so) (dst + do) m')"
  by (subst dma_loop.simps) (simp cong: sum.case_cong)

lemma dma_loops_agree:
  assumes "js_and src 3 = 0" and "js_and dst 3 = 0" and "dma_ok m sr dr"
  shows "dma_loop (step_vv32 sr dr) (a * 4) (b * 4) (int n) src dst m =
           dma_loop (step_vs32 env sr dr) (a * 4) (b * 4) (int n) src dst m \<and>
         dma_loop (step_vv32 sr dr) (a * 4) (b * 4) (int n) src dst m =
           dma_loop (step_ls32 env sr dr) (a * 4) (b * 4) (int n) src dst m \<and>
         (\<exists>r. dma_loop (step_vv32 sr dr) (a * 4) (b * 4) (int n) src dst m = Some r)"
  using assms
proof (induction n arbitrary: src dst m)
  case 0
  then show ?case by (simp add: dma_loop_0)
next
  case (Suc n)
  have e1: "step_vs32 env sr dr src dst m = step_vv32 sr dr src dst m"
    using step_vv32_vs32[OF Suc.prems(3) Suc.prems(2)] by simp
  have e2: "step_ls32 env sr dr src dst m = step_vv32 sr dr src dst m"
    using step_vs32_ls32[OF Suc.prems(3) Suc.prems(1)] e1 by simp
  show ?case
  proof (cases "step_vv32 sr dr src dst m")
    case (Inl e)
    show ?thesis unfolding dma_loop_Suc e1 e2 Inl by simp
  next
    case (Inr m')
    have ok: "dma_ok m' sr dr" using step_vv32_ok[OF Suc.prems(3) Inr] .
    note ih = Suc.IH[OF aligned_step[OF Suc.prems(1), of a] aligned_step[OF Suc.prems(2), of b] ok]
    show ?thesis unfolding dma_loop_Suc e1 e2 Inr sum.case by (rule ih)
  qed
qed


lemma ram_example_ok:
  "kind ram_example = MemoryBlock" "masks_reset ram_example" "maskR ram_example = 7"
  "view ram_example = [0x11, 0x22, 0x33, 0x44, 0x55, 0x66, 0x77, 0x08]"
  by (simp_all add: ram_example_def MemoryBlock_new_def resetMask_def masks_reset_def)

lemma block8_ok:
  "kind (MemoryBlock_new 8 7) = MemoryBlock" "masks_reset (MemoryBlock_new 8 7)"
  "maskR (MemoryBlock_new 8 7) = 7" "view (MemoryBlock_new 8 7) = [0, 0, 0, 0, 0, 0, 0, 0]"
  "ICACHE_PAGE_BITS (MemoryBlock_new 8 7) = 7" "icache (MemoryBlock_new 8 7) = Map.empty"
  by (simp_all add: MemoryBlock_new_def resetMask_def masks_reset_def numeral_eq_Suc)

lemma example_ok: "dma_ok dma_example_memory 2 3"
  by (simp add: dma_ok_def dma_example_memory_def slot_at_def ram_example_ok block8_ok)

lemma example_invalidate:
  "dma_invalidate (slot_at dma_example_memory 3) 0 2 4 =
     Inr (Mem ((MemoryBlock_new 8 7)\<lparr>ICACHE_PAGE_BITS := 4\<rparr>))"
  by (simp add: dma_example_memory_def slot_at_def dma_invalidate_def js_truthy_def block8_ok
      Let_def js_defs invalidatePage_def MemoryBlock_invalidatePage_def)

lemma example_transfer:
  "\<exists>m'. dma_transfer idle_env 4 4 4 2 3 2 0 0
     (slot_set dma_example_memory 3 (Mem ((MemoryBlock_new 8 7)\<lparr>ICACHE_PAGE_BITS := 4\<rparr>)))
    = Some (Inr (m', 8, 8, - 1)) \<and> 
    slot_at m' 4 = IO ((replicate 0x400 0)[111 := 0x8400]) () \<and>
    (case slot_at m' 3 of Mem r \<Rightarrow> view r = view ram_example | _ \<Rightarrow> False)"
proof -
  have two: "(2::int) = int (Suc (Suc 0))" by simp
  show ?thesis
    unfolding dma_transfer_def two
    apply (simp only: dma_loop_Suc dma_loop_0 Let_def)
    apply (simp add: dma_example_memory_def slot_at_def slot_set_def has_view_def is_null_def js_defs
        step_vv32_def ram_example_ok block8_ok getInt32_def setInt32_def in_view_def get32_def
        byte_of_word_of dma_loop_0)
    done
qed


lemma example_regions:
  "region_of 0x02000000 = 2" "region_of 0x03000000 = 3"
  "js_and 0x02000000 0x00ffffff = 0" "js_and 0x03000000 0x00ffffff = 0"
  by (simp_all add: region_of_def js_defs)

lemma example_body:
  assumes "nextSource info = 0x02000000" "nextDest info = 0x03000000" "nextCount info = 2"
    "width info = 4" "srcControl info = DMA_INCREMENT" "DMA_OFFSET (dstControl info) = 1"
  shows "\<exists>m'. serviceDma_body idle_env 3 info dma_example_state =
           Some (dma_bookkeeping 3 info dma_example_state 2 3 m' 8 8 (- 1)) \<and>
         slot_at m' 4 = IO ((replicate 0x400 0)[111 := 0x8400]) ()"
proof -
  obtain m' where t: "dma_transfer idle_env 4 4 4 2 3 2 0 0
     (slot_set dma_example_memory 3 (Mem ((MemoryBlock_new 8 7)\<lparr>ICACHE_PAGE_BITS := 4\<rparr>)))
    = Some (Inr (m', 8, 8, - 1))" and io: "slot_at m' 4 = IO ((replicate 0x400 0)[111 := 0x8400]) ()"
    using example_transfer by blast
  have "serviceDma_body idle_env 3 info dma_example_state =
           Some (dma_bookkeeping 3 info dma_example_state 2 3 m' 8 8 (- 1))"
    by (simp add: serviceDma_body_def Let_def dma_example_state_def assms example_regions
        example_invalidate t)
  with io show ?thesis by blast
qed

lemma example_run:
  "\<exists>info' s'. serviceDma (Suc 0) idle_env 3 dma_example_info dma_example_state = Some (Inr (info', s'))
     \<and> nextCount info' = - 1"
proof -
  obtain m' where b: "serviceDma_body idle_env 3 dma_example_info dma_example_state =
           Some (dma_bookkeeping 3 dma_example_info dma_example_state 2 3 m' 8 8 (- 1))"
    and io: "slot_at m' 4 = IO ((replicate 0x400 0)[111 := 0x8400]) ()"
    using example_body[of dma_example_info] by (auto simp add: dma_example_info_def)
  have "\<exists>i s. dma_bookkeeping 3 dma_example_info dma_example_state 2 3 m' 8 8 (- 1) = Inr (i, s, False)
          \<and> nextCount i = - 1"
    by (simp add: dma_bookkeeping_def Let_def dma_irq_def dma_example_info_def clear_enable_bit_def io)
  then obtain i s where bk:
    "dma_bookkeeping 3 dma_example_info dma_example_state 2 3 m' 8 8 (- 1) = Inr (i, s, False)"
    "nextCount i = - 1" by blast
  have en: "enable dma_example_info" by (simp add: dma_example_info_def)
  have "serviceDma (Suc 0) idle_env 3 dma_example_info dma_example_state = Some (Inr (i, s))"
    using en by (simp add: b bk)
  with bk(2) show ?thesis by blast
qed

lemma example_run_repeat:
  "\<exists>info' s'. serviceDma (Suc (Suc 0)) idle_env 3 dma_example_repeat dma_example_state
      = Some (Inr (info', s'))"
proof -
  obtain m' where b: "serviceDma_body idle_env 3 dma_example_repeat dma_example_state =
           Some (dma_bookkeeping 3 dma_example_repeat dma_example_state 2 3 m' 8 8 (- 1))"
    using example_body[of dma_example_repeat]
    by (auto simp add: dma_example_info_def dma_example_repeat_def)
  have "\<exists>i s. dma_bookkeeping 3 dma_example_repeat dma_example_state 2 3 m' 8 8 (- 1) = Inr (i, s, True)
          \<and> timing i = DMA_TIMING_HBLANK"
    by (simp add: dma_bookkeeping_def Let_def dma_irq_def dma_example_info_def dma_example_repeat_def)
  then obtain i s where bk:
    "dma_bookkeeping 3 dma_example_repeat dma_example_state 2 3 m' 8 8 (- 1) = Inr (i, s, True)"
    "timing i = DMA_TIMING_HBLANK" by blast
  have en: "enable dma_example_repeat" by (simp add: dma_example_info_def dma_example_repeat_def)
  have "serviceDma (Suc (Suc 0)) idle_env 3 dma_example_repeat dma_example_state = Some (Inr (i, s))"
    using en by (simp add: b bk)
  then show ?thesis by blast
qed

lemma idle_env_fifo:
  "\<forall>d i i'. scheduleFIFODma idle_env d i = Inr i' \<longrightarrow>
     nextCount i' = nextCount i \<and> nextDest i' = nextDest i"
  by (simp add: idle_env_def)


lemma aligned_masked: "js_and (js_and a 0xfffffffc) 3 = 0"
proof -
  have "(- 4 :: 32 word) AND 3 = 0" by simp
  then have "ToInt32 a AND (- 4 AND 3) = 0" by simp
  then show ?thesis by (simp add: js_and_def and.assoc c32)
qed



end
